theory Spec2Isabelle
  imports Complex_Main "HOL-Library.Word"
begin

unbundle bit_operations_syntax

section \<open>Machine types\<close>

text \<open>
  The fixed-width integer types of \<^verbatim>\<open>types.h\<close>.  Arithmetic on them wraps around, as
  unsigned C arithmetic does.  A CPU pointer (\<^verbatim>\<open>u8*\<close>) is a 64-bit address.
\<close>

type_synonym u8 = "8 word"
type_synonym u32 = "32 word"
type_synonym u64 = "64 word"

text \<open>The result codes of \<^verbatim>\<open>gpu_device.h\<close>, in the order of the enum.\<close>

datatype GibgoResult =
    GIBGO_RESULT_SUCCESS
  | GIBGO_RESULT_ERROR_DEVICE_NOT_FOUND
  | GIBGO_RESULT_ERROR_DEVICE_ACCESS_DENIED
  | GIBGO_RESULT_ERROR_MEMORY_MAP_FAILED
  | GIBGO_RESULT_ERROR_OUT_OF_MEMORY
  | GIBGO_RESULT_ERROR_INVALID_PARAMETER
  | GIBGO_RESULT_ERROR_GPU_TIMEOUT
  | GIBGO_RESULT_ERROR_COMMAND_FAILED
  | GIBGO_RESULT_ERROR_DISPLAY_FAILED

section \<open>Memory allocator\<close>

text \<open>
  The allocator of the persistent-pool variant of the device code
  (\<^verbatim>\<open>gibgo_allocate_gpu_memory\<close>, \<^verbatim>\<open>gibgo_map_gpu_memory\<close>,
  \<^verbatim>\<open>gibgo_unmap_gpu_memory\<close>).  The struct declarations of the pool are not part of
  the sources at hand; the records below carry exactly the fields the functions read and
  write, with the names the functions use (the field \<^verbatim>\<open>size\<close> of a slot is
  \<open>alloc_size\<close> here, the fields \<^verbatim>\<open>vram.physical_address\<close> and \<^verbatim>\<open>vram.size\<close> of the
  device are \<open>vram_physical_address\<close> and \<open>vram_size\<close>).  The slot table
  \<^verbatim>\<open>allocations[256]\<close> is a function from the slot index; only the indices below 256 are
  ever read or written.

  The functions take the device by value and return the updated device: the \<^verbatim>\<open>NULL\<close>
  checks of the C code on the device pointer and on the out-pointer are preconditions of
  the model.  The value stored through the out-pointer is the \<open>option\<close> component of the
  result, \<open>None\<close> when the C code returns without storing.
\<close>

record GibgoGPUAllocation =
  gpu_address :: u64
  cpu_pointer :: u64
  alloc_size :: u64
  in_use :: bool

record GibgoGPUMemoryPool =
  pool_memory :: u64
  pool_size :: u64
  pool_used :: u64
  allocation_count :: u32
  allocations :: "nat \<Rightarrow> GibgoGPUAllocation"

text \<open>
  The command ring of \<^verbatim>\<open>gpu_device.h\<close>.  \<^verbatim>\<open>command_buffer\<close> points to an array of
  \<^verbatim>\<open>u32\<close>; the model keeps the memory starting at that pointer as a store from the
  element index to the element.  \<^verbatim>\<open>buffer_size\<close> is the number of bytes that were
  allocated for it, so the elements of the allocation are those with index below
  \<open>buffer_size div 4\<close>; a store at a larger index is a store past the end of the block.
  A recorded command is the four-word \<^verbatim>\<open>GibgoGPUCommand\<close> of \<^verbatim>\<open>gpu_commands.c\<close>.
\<close>

record GibgoCommandRing =
  command_buffer :: "nat \<Rightarrow> u32"
  buffer_size :: u64
  head_offset :: u32
  tail_offset :: u32
  capacity :: u32

record GibgoGPUCommand =
  command_type :: u32
  param0 :: u32
  param1 :: u32
  param2 :: u32

text \<open>
  The device.  \<open>registers\<close> is the memory-mapped register block \<^verbatim>\<open>regs.registers\<close>
  (an array of \<^verbatim>\<open>u32\<close>), \<open>command_processor_offset\<close> is
  \<^verbatim>\<open>regs.command_processor_offset\<close>.
\<close>

record GibgoGPUDevice =
  vram_physical_address :: u64
  vram_size :: u64
  vram_allocation_offset :: u64
  memory_pool :: GibgoGPUMemoryPool
  registers :: "nat \<Rightarrow> u32"
  command_processor_offset :: u32
  cmd_ring :: GibgoCommandRing
  commands_submitted :: u64

definition GPU_MEMORY_ALIGNMENT :: u64 where
  "GPU_MEMORY_ALIGNMENT = 256"

definition align_gpu_memory :: "u64 \<Rightarrow> u64 \<Rightarrow> u64" where
  "align_gpu_memory sz alignment = (sz + alignment - 1) AND NOT (alignment - 1)"

text \<open>
  The slot search of the allocator: the first index below 256 whose slot is not in use,
  and 0 (the initial value of \<^verbatim>\<open>slot_index\<close>) when the loop finds none.
\<close>

definition find_unused_slot :: "(nat \<Rightarrow> GibgoGPUAllocation) \<Rightarrow> nat" where
  "find_unused_slot allocs =
     (case find (\<lambda>i. \<not> in_use (allocs i)) [0..<256] of
        Some i \<Rightarrow> i
      | None \<Rightarrow> 0)"

definition gibgo_allocate_gpu_memory ::
  "GibgoGPUDevice \<Rightarrow> u64 \<Rightarrow> GibgoResult \<times> u64 option \<times> GibgoGPUDevice" where
  "gibgo_allocate_gpu_memory device sz =
     (if sz = 0 then (GIBGO_RESULT_ERROR_INVALID_PARAMETER, None, device)
      else
        let pool = memory_pool device;
            aligned_size = align_gpu_memory sz GPU_MEMORY_ALIGNMENT
        in if pool_used pool + aligned_size > pool_size pool
           then (GIBGO_RESULT_ERROR_OUT_OF_MEMORY, None, device)
           else if allocation_count pool \<ge> 256
           then (GIBGO_RESULT_ERROR_OUT_OF_MEMORY, None, device)
           else
             let slot_index = find_unused_slot (allocations pool);
                 gpu_addr = vram_physical_address device + vram_allocation_offset device;
                 cpu_ptr = pool_memory pool + pool_used pool;
                 slot = \<lparr> gpu_address = gpu_addr, cpu_pointer = cpu_ptr,
                          alloc_size = aligned_size, in_use = True \<rparr>;
                 pool' = pool \<lparr> allocations := (allocations pool)(slot_index := slot),
                               pool_used := pool_used pool + aligned_size,
                               allocation_count := allocation_count pool + 1 \<rparr>
             in (GIBGO_RESULT_SUCCESS, Some gpu_addr,
                 device \<lparr> memory_pool := pool',
                          vram_allocation_offset :=
                            vram_allocation_offset device + aligned_size \<rparr>))"

text \<open>\<^verbatim>\<open>gibgo_free_gpu_memory\<close> only logs: the device is returned as it was.\<close>

definition gibgo_free_gpu_memory ::
  "GibgoGPUDevice \<Rightarrow> u64 \<Rightarrow> u64 \<Rightarrow> GibgoResult \<times> GibgoGPUDevice" where
  "gibgo_free_gpu_memory device address sz = (GIBGO_RESULT_SUCCESS, device)"

text \<open>
  \<^verbatim>\<open>gibgo_map_gpu_memory\<close> scans the slots in order and decides at the first slot in use
  whose \<^verbatim>\<open>gpu_address\<close> equals the address asked for.  It does not write to the device.
\<close>

definition gibgo_map_gpu_memory ::
  "GibgoGPUDevice \<Rightarrow> u64 \<Rightarrow> u64 \<Rightarrow> GibgoResult \<times> u64 option" where
  "gibgo_map_gpu_memory device gpu_addr sz =
     (if sz = 0 then (GIBGO_RESULT_ERROR_INVALID_PARAMETER, None)
      else
        let allocs = allocations (memory_pool device)
        in case find (\<lambda>i. in_use (allocs i) \<and> gpu_address (allocs i) = gpu_addr) [0..<256] of
             Some i \<Rightarrow>
               if sz > alloc_size (allocs i)
               then (GIBGO_RESULT_ERROR_INVALID_PARAMETER, None)
               else (GIBGO_RESULT_SUCCESS, Some (cpu_pointer (allocs i)))
           | None \<Rightarrow> (GIBGO_RESULT_ERROR_INVALID_PARAMETER, None))"

text \<open>
  \<^verbatim>\<open>gibgo_unmap_gpu_memory\<close> checks that the pointer is not \<^verbatim>\<open>NULL\<close> and is the
  \<^verbatim>\<open>cpu_pointer\<close> of a slot in use.  It writes neither to the device nor to memory.
\<close>

definition gibgo_unmap_gpu_memory :: "GibgoGPUDevice \<Rightarrow> u64 \<Rightarrow> u64 \<Rightarrow> GibgoResult" where
  "gibgo_unmap_gpu_memory device cpu_address sz =
     (if cpu_address = 0 then GIBGO_RESULT_ERROR_INVALID_PARAMETER
      else
        let allocs = allocations (memory_pool device)
        in case find (\<lambda>i. in_use (allocs i) \<and> cpu_pointer (allocs i) = cpu_address) [0..<256] of
             Some i \<Rightarrow> GIBGO_RESULT_SUCCESS
           | None \<Rightarrow> GIBGO_RESULT_ERROR_INVALID_PARAMETER)"

text \<open>
  Memory behind the CPU pointers: a byte store.  \<open>heap_write\<close> is the \<^verbatim>\<open>memcpy\<close> of the
  callers into a mapped pointer, \<open>heap_read\<close> reads a block back.
\<close>

type_synonym heap = "u64 \<Rightarrow> u8"

fun heap_write :: "heap \<Rightarrow> u64 \<Rightarrow> u8 list \<Rightarrow> heap" where
  "heap_write h p [] = h"
| "heap_write h p (b # bs) = heap_write (h(p := b)) (p + 1) bs"

fun heap_read :: "heap \<Rightarrow> u64 \<Rightarrow> nat \<Rightarrow> u8 list" where
  "heap_read h p 0 = []"
| "heap_read h p (Suc n) = h p # heap_read h (p + 1) n"

section \<open>Command ring\<close>

text \<open>
  The ring set up by \<^verbatim>\<open>gibgo_create_device\<close>: 1024 command slots, a buffer of
  \<^verbatim>\<open>capacity * sizeof(u32)\<close> bytes from \<^verbatim>\<open>malloc\<close> (its contents are whatever
  the memory held, the parameter \<open>contents\<close>), head and tail at 0.
\<close>

definition create_cmd_ring :: "(nat \<Rightarrow> u32) \<Rightarrow> GibgoCommandRing" where
  "create_cmd_ring contents =
     (let cap = (1024 :: u32)
      in \<lparr> command_buffer = contents,
           buffer_size = ucast cap * 4,
           head_offset = 0,
           tail_offset = 0,
           capacity = cap \<rparr>)"

text \<open>
  The command processor registers: \<^verbatim>\<open>cmd_regs\<close> is the address of element
  \<^verbatim>\<open>command_processor_offset / sizeof(u32)\<close> of the register block.
\<close>

definition cmd_regs :: "GibgoGPUDevice \<Rightarrow> nat \<Rightarrow> u32" where
  "cmd_regs device k = registers device (unat (command_processor_offset device div 4) + k)"

text \<open>
  The wait of \<^verbatim>\<open>submit_commands_to_hardware\<close> on a full ring:
  \<^verbatim>\<open>while (next_tail == head_offset && timeout > 0) { head_offset = cmd_regs[0x04]; timeout--; }\<close>.
  Nothing else runs while the submitter waits, so the register holds one value
  \<open>gpu_head\<close> throughout.  The result is the head offset and the timeout left.
\<close>

fun wait_for_ring_space :: "nat \<Rightarrow> u32 \<Rightarrow> u32 \<Rightarrow> u32 \<Rightarrow> u32 \<times> nat" where
  "wait_for_ring_space 0 next_tail head gpu_head = (head, 0)"
| "wait_for_ring_space (Suc timeout) next_tail head gpu_head =
     (if next_tail = head
      then wait_for_ring_space timeout next_tail gpu_head gpu_head
      else (head, Suc timeout))"

text \<open>The four stores of one command at the tail of the ring, and the new tail.\<close>

definition write_ring_command ::
  "GibgoCommandRing \<Rightarrow> GibgoGPUCommand \<Rightarrow> u32 \<Rightarrow> GibgoCommandRing" where
  "write_ring_command ring cmd next_tail =
     (let ring_index = tail_offset ring
      in ring \<lparr> command_buffer :=
                  (command_buffer ring)
                    (unat (ring_index * 4 + 0) := command_type cmd,
                     unat (ring_index * 4 + 1) := param0 cmd,
                     unat (ring_index * 4 + 2) := param1 cmd,
                     unat (ring_index * 4 + 3) := param2 cmd),
                tail_offset := next_tail \<rparr>)"

text \<open>
  The ring is full when \<^verbatim>\<open>(tail_offset + 1) % capacity == head_offset\<close>: the test at the
  head of the loop body.
\<close>

definition ring_full :: "GibgoCommandRing \<Rightarrow> bool" where
  "ring_full ring \<longleftrightarrow> (tail_offset ring + 1) mod capacity ring = head_offset ring"

text \<open>
  The loop of \<^verbatim>\<open>submit_commands_to_hardware\<close> that copies the command list into the ring,
  one command per iteration.  On a full ring it waits (at most 1000000 polls of the head
  register \<^verbatim>\<open>cmd_regs[0x04]\<close>) and returns \<^verbatim>\<open>GIBGO_RESULT_ERROR_GPU_TIMEOUT\<close> when
  the timeout runs out.  (\<^verbatim>\<open>capacity\<close> is 1024 on every created device; the C code
  divides by it, so it is taken to be non-zero.)
\<close>

fun write_commands_to_ring ::
  "GibgoGPUDevice \<Rightarrow> GibgoGPUCommand list \<Rightarrow> GibgoResult \<times> GibgoGPUDevice" where
  "write_commands_to_ring device [] = (GIBGO_RESULT_SUCCESS, device)"
| "write_commands_to_ring device (cmd # cmds) =
     (let ring = cmd_ring device;
          next_tail = (tail_offset ring + 1) mod capacity ring
      in if next_tail = head_offset ring
         then
           (case wait_for_ring_space 1000000 next_tail (head_offset ring) (cmd_regs device 4) of
              (head, timeout) \<Rightarrow>
                if timeout = 0
                then (GIBGO_RESULT_ERROR_GPU_TIMEOUT,
                      device \<lparr> cmd_ring := ring \<lparr> head_offset := head \<rparr> \<rparr>)
                else write_commands_to_ring
                       (device \<lparr> cmd_ring :=
                          write_ring_command (ring \<lparr> head_offset := head \<rparr>) cmd next_tail \<rparr>)
                       cmds)
         else write_commands_to_ring
                (device \<lparr> cmd_ring := write_ring_command ring cmd next_tail \<rparr>) cmds)"

text \<open>
  Whether element \<open>idx\<close> of the command buffer lies inside the block of
  \<^verbatim>\<open>buffer_size\<close> bytes: its four bytes start at byte \<open>4 * idx\<close>.
\<close>

definition in_command_buffer :: "GibgoCommandRing \<Rightarrow> nat \<Rightarrow> bool" where
  "in_command_buffer ring idx \<longleftrightarrow> 4 * idx + 4 \<le> unat (buffer_size ring)"

section \<open>Single-precision floating point\<close>

text \<open>
  \<^verbatim>\<open>f32\<close> of \<^verbatim>\<open>types.h\<close> is a union over a 32-bit word: the model keeps the member
  \<^verbatim>\<open>bits\<close>.  The bit fields \<^verbatim>\<open>mantissa : 23\<close>, \<^verbatim>\<open>exponent : 8\<close> and \<^verbatim>\<open>sign : 1\<close> are
  read off the word with the masks \<^verbatim>\<open>F32_MANTISSA_MASK\<close>, \<^verbatim>\<open>F32_EXPONENT_MASK\<close> and
  \<^verbatim>\<open>F32_SIGN_MASK\<close>.  \<^verbatim>\<open>f32_to_native\<close> and \<^verbatim>\<open>f32_from_native\<close> are bit casts, so the
  native \<^verbatim>\<open>float\<close> is the same word, read as IEEE 754 binary32.
\<close>

type_synonym f32 = u32

definition f32_sign :: "f32 \<Rightarrow> bool" where
  "f32_sign a \<longleftrightarrow> a AND 0x80000000 \<noteq> 0"

definition f32_exponent :: "f32 \<Rightarrow> int" where
  "f32_exponent a = uint (drop_bit 23 (a AND 0x7F800000))"

definition f32_mantissa :: "f32 \<Rightarrow> int" where
  "f32_mantissa a = uint (a AND 0x007FFFFF)"

definition F32_ZERO :: f32 where "F32_ZERO = 0x00000000"
definition F32_ONE :: f32 where "F32_ONE = 0x3F800000"
definition F32_HALF :: f32 where "F32_HALF = 0x3F000000"

subsection \<open>The arithmetic of the native float\<close>

text \<open>
  The C operators \<^verbatim>\<open>+ - * /\<close> and the comparisons on \<^verbatim>\<open>float\<close> are those of IEEE 754
  binary32 with rounding to nearest, ties to even, each operation rounded on its own
  (the arithmetic of SSE on x86-64; no fused multiply-add, no wider intermediate format).
  A finite float with sign \<open>s\<close>, biased exponent \<open>e\<close> and mantissa \<open>m\<close> is
  \<open>(-1)^s * float_sig * 2^float_exp\<close> with the significand and exponent below; the
  exponent 255 is an infinity (mantissa 0) or a NaN.  A NaN operand is handed on
  with its quiet bit set (the first operand's if both are NaN), and an invalid operation
  gives the default NaN \<open>0xFFC00000\<close>, as the SSE instructions do.
\<close>

definition float_is_nan :: "f32 \<Rightarrow> bool" where
  "float_is_nan a \<longleftrightarrow> f32_exponent a = 255 \<and> f32_mantissa a \<noteq> 0"

definition float_is_inf :: "f32 \<Rightarrow> bool" where
  "float_is_inf a \<longleftrightarrow> f32_exponent a = 255 \<and> f32_mantissa a = 0"

definition float_sig :: "f32 \<Rightarrow> int" where
  "float_sig a = (if f32_exponent a = 0 then f32_mantissa a else 2 ^ 23 + f32_mantissa a)"

definition float_exp :: "f32 \<Rightarrow> int" where
  "float_exp a = (if f32_exponent a = 0 then - 149 else f32_exponent a - 150)"

definition float_is_zero :: "f32 \<Rightarrow> bool" where
  "float_is_zero a \<longleftrightarrow> f32_exponent a = 0 \<and> f32_mantissa a = 0"

definition float_pack :: "bool \<Rightarrow> int \<Rightarrow> f32" where
  "float_pack s mag = (if s then 0x80000000 else 0) OR word_of_int mag"

definition float_quiet :: "f32 \<Rightarrow> f32" where
  "float_quiet a = a OR 0x00400000"

definition float_default_nan :: f32 where
  "float_default_nan = 0xFFC00000"

definition float_nan_of :: "f32 \<Rightarrow> f32 \<Rightarrow> f32" where
  "float_nan_of a b = (if float_is_nan a then float_quiet a else float_quiet b)"

text \<open>The number of binary digits of a positive integer.\<close>

function bit_length :: "int \<Rightarrow> int" where
  "bit_length n = (if n \<le> 0 then 0 else 1 + bit_length (n div 2))"
  by pat_completeness auto
termination
  by (relation "measure nat") auto

declare bit_length.simps [simp del]

text \<open>\<open>floor_log2 n d\<close> is the integer part of the binary logarithm of \<open>n / d\<close>
  (both positive).\<close>

definition floor_log2 :: "int \<Rightarrow> int \<Rightarrow> int" where
  "floor_log2 n d =
     (let c = bit_length n - bit_length d
      in if n * 2 ^ nat (- c) \<ge> d * 2 ^ nat c then c else c - 1)"

text \<open>
  \<open>float_round s n d e\<close> is the float nearest to \<open>(-1)^s * (n / d) * 2^e\<close> for positive
  \<open>n\<close> and \<open>d\<close>: the quotient is cut at the last place of its binade (or of the
  subnormal range), rounded to nearest with ties to even, and an overflow gives the
  infinity.  The magnitude is assembled as an integer, so that a significand rounded up
  to \<open>2^24\<close> carries into the exponent.
\<close>

definition float_round :: "bool \<Rightarrow> int \<Rightarrow> int \<Rightarrow> int \<Rightarrow> f32" where
  "float_round s n d e =
     (let p = floor_log2 n d + e;
          qe = max (p - 23) (- 149);
          sh = e - qe;
          N = n * 2 ^ nat sh;
          D = d * 2 ^ nat (- sh);
          k0 = N div D;
          r = N mod D;
          k = (if 2 * r > D \<or> (2 * r = D \<and> odd k0) then k0 + 1 else k0);
          mag = (qe + 149) * 2 ^ 23 + k
      in float_pack s (if mag \<ge> 0x7F800000 then 0x7F800000 else mag))"

text \<open>The sum of two finite floats, the second one with its sign flipped when \<open>neg_b\<close>.\<close>

definition float_add_finite :: "f32 \<Rightarrow> bool \<Rightarrow> f32 \<Rightarrow> f32" where
  "float_add_finite a neg_b b =
     (let sa = f32_sign a; sb = (f32_sign b \<noteq> neg_b);
          e = min (float_exp a) (float_exp b);
          va = float_sig a * 2 ^ nat (float_exp a - e);
          vb = float_sig b * 2 ^ nat (float_exp b - e);
          v = (if sa then - va else va) + (if sb then - vb else vb)
      in if v = 0 then float_pack (sa \<and> sb) 0
         else float_round (v < 0) \<bar>v\<bar> 1 e)"

definition float_add_sub :: "f32 \<Rightarrow> bool \<Rightarrow> f32 \<Rightarrow> f32" where
  "float_add_sub a neg_b b =
     (if float_is_nan a \<or> float_is_nan b then float_nan_of a b
      else if float_is_inf a then
        (if float_is_inf b \<and> (f32_sign a \<noteq> (f32_sign b \<noteq> neg_b)) then float_default_nan
         else a)
      else if float_is_inf b then float_pack (f32_sign b \<noteq> neg_b) 0x7F800000
      else float_add_finite a neg_b b)"

definition float_add :: "f32 \<Rightarrow> f32 \<Rightarrow> f32" where
  "float_add a b = float_add_sub a False b"

definition float_sub :: "f32 \<Rightarrow> f32 \<Rightarrow> f32" where
  "float_sub a b = float_add_sub a True b"

definition float_mul :: "f32 \<Rightarrow> f32 \<Rightarrow> f32" where
  "float_mul a b =
     (let s = (f32_sign a \<noteq> f32_sign b)
      in if float_is_nan a \<or> float_is_nan b then float_nan_of a b
         else if float_is_inf a \<or> float_is_inf b then
           (if float_is_zero a \<or> float_is_zero b then float_default_nan
            else float_pack s 0x7F800000)
         else if float_is_zero a \<or> float_is_zero b then float_pack s 0
         else float_round s (float_sig a * float_sig b) 1 (float_exp a + float_exp b))"

definition float_div :: "f32 \<Rightarrow> f32 \<Rightarrow> f32" where
  "float_div a b =
     (let s = (f32_sign a \<noteq> f32_sign b)
      in if float_is_nan a \<or> float_is_nan b then float_nan_of a b
         else if float_is_inf a then
           (if float_is_inf b then float_default_nan else float_pack s 0x7F800000)
         else if float_is_inf b then float_pack s 0
         else if float_is_zero b then
           (if float_is_zero a then float_default_nan else float_pack s 0x7F800000)
         else if float_is_zero a then float_pack s 0
         else float_round s (float_sig a) (float_sig b) (float_exp a - float_exp b))"

text \<open>
  The comparisons: false when an operand is a NaN, and the two zeros are equal.  For the
  other floats the order is that of the sign-and-magnitude reading of the word.
\<close>

definition float_key :: "f32 \<Rightarrow> int" where
  "float_key a =
     (if f32_sign a then - uint (a AND 0x7FFFFFFF) else uint (a AND 0x7FFFFFFF))"

definition float_lt :: "f32 \<Rightarrow> f32 \<Rightarrow> bool" where
  "float_lt a b \<longleftrightarrow> \<not> float_is_nan a \<and> \<not> float_is_nan b \<and> float_key a < float_key b"

definition float_le :: "f32 \<Rightarrow> f32 \<Rightarrow> bool" where
  "float_le a b \<longleftrightarrow> \<not> float_is_nan a \<and> \<not> float_is_nan b \<and> float_key a \<le> float_key b"

text \<open>
  The conversions \<^verbatim>\<open>(float)\<close> from \<^verbatim>\<open>u32\<close> and \<^verbatim>\<open>i32\<close> round to nearest.  The conversions
  \<^verbatim>\<open>(i32)\<close> and \<^verbatim>\<open>(u32)\<close> of a float cut the fraction off; C leaves them undefined for a
  NaN and for a value outside the target type, where the model gives what the conversion
  instruction of x86-64 gives (\<open>0x80000000\<close> for \<^verbatim>\<open>(i32)\<close>, and the low word of the 64-bit
  conversion for \<^verbatim>\<open>(u32)\<close>).  Loop counters of type \<^verbatim>\<open>i32\<close> are integers in the model.
\<close>

definition float_of_int :: "int \<Rightarrow> f32" where
  "float_of_int i = (if i = 0 then 0 else float_round (i < 0) \<bar>i\<bar> 1 0)"

definition float_of_u32 :: "u32 \<Rightarrow> f32" where
  "float_of_u32 v = float_of_int (uint v)"

definition float_trunc :: "f32 \<Rightarrow> int" where
  "float_trunc a =
     (let mag = (if float_exp a \<ge> 0 then float_sig a * 2 ^ nat (float_exp a)
                 else float_sig a div 2 ^ nat (- float_exp a))
      in if f32_sign a then - mag else mag)"

definition float_to_i32 :: "f32 \<Rightarrow> int" where
  "float_to_i32 a =
     (if f32_exponent a = 255 \<or> float_trunc a < - (2 ^ 31) \<or> float_trunc a \<ge> 2 ^ 31
      then - (2 ^ 31) else float_trunc a)"

definition float_to_u32 :: "f32 \<Rightarrow> u32" where
  "float_to_u32 a =
     (if f32_exponent a = 255 \<or> float_trunc a < - (2 ^ 63) \<or> float_trunc a \<ge> 2 ^ 63
      then 0 else word_of_int (float_trunc a))"

subsection \<open>The operations of the math library\<close>

text \<open>
  \<^verbatim>\<open>math.h\<close>: the arithmetic goes through the native float, \<^verbatim>\<open>f32_neg\<close> and
  \<^verbatim>\<open>f32_abs\<close> work on the sign bit, \<^verbatim>\<open>f32_eq\<close> compares the words.  The helpers at the
  head of the pipeline in \<^verbatim>\<open>gpu_commands.c\<close>: \<^verbatim>\<open>f32_le\<close> and \<^verbatim>\<open>f32_ge\<close> are
  \<^verbatim>\<open>f32_lt\<close> or \<^verbatim>\<open>f32_gt\<close> together with \<^verbatim>\<open>f32_eq\<close>.
\<close>

definition f32_add :: "f32 \<Rightarrow> f32 \<Rightarrow> f32" where "f32_add a b = float_add a b"
definition f32_sub :: "f32 \<Rightarrow> f32 \<Rightarrow> f32" where "f32_sub a b = float_sub a b"
definition f32_mul :: "f32 \<Rightarrow> f32 \<Rightarrow> f32" where "f32_mul a b = float_mul a b"
definition f32_div :: "f32 \<Rightarrow> f32 \<Rightarrow> f32" where "f32_div a b = float_div a b"

definition f32_neg :: "f32 \<Rightarrow> f32" where
  "f32_neg a = a XOR 0x80000000"

definition f32_abs :: "f32 \<Rightarrow> f32" where
  "f32_abs a = a AND 0x7FFFFFFF"

definition f32_eq :: "f32 \<Rightarrow> f32 \<Rightarrow> bool" where "f32_eq a b \<longleftrightarrow> a = b"
definition f32_lt :: "f32 \<Rightarrow> f32 \<Rightarrow> bool" where "f32_lt a b \<longleftrightarrow> float_lt a b"
definition f32_gt :: "f32 \<Rightarrow> f32 \<Rightarrow> bool" where "f32_gt a b \<longleftrightarrow> float_lt b a"

definition f32_from_u32 :: "u32 \<Rightarrow> f32" where "f32_from_u32 v = float_of_u32 v"
definition f32_from_i32 :: "int \<Rightarrow> f32" where "f32_from_i32 v = float_of_int v"

definition f32_min :: "f32 \<Rightarrow> f32 \<Rightarrow> f32" where
  "f32_min a b = (if f32_lt a b then a else b)"

definition f32_max :: "f32 \<Rightarrow> f32 \<Rightarrow> f32" where
  "f32_max a b = (if f32_gt a b then a else b)"

definition f32_clamp :: "f32 \<Rightarrow> f32 \<Rightarrow> f32 \<Rightarrow> f32" where
  "f32_clamp v min_val max_val = f32_min (f32_max v min_val) max_val"

definition f32_le :: "f32 \<Rightarrow> f32 \<Rightarrow> bool" where
  "f32_le a b \<longleftrightarrow> f32_lt a b \<or> f32_eq a b"

definition f32_ge :: "f32 \<Rightarrow> f32 \<Rightarrow> bool" where
  "f32_ge a b \<longleftrightarrow> f32_gt a b \<or> f32_eq a b"

section \<open>Vectors, matrices and vertices\<close>

text \<open>
  The vector and matrix structs of \<^verbatim>\<open>math.h\<close>.  The fields \<^verbatim>\<open>x y z\<close> of \<^verbatim>\<open>Vec3f\<close> are
  \<open>v3x v3y v3z\<close> (the padding word carries no data and is left out), the fields
  \<^verbatim>\<open>x y z w\<close> of \<^verbatim>\<open>Vec4f\<close> are \<open>v4x v4y v4z v4w\<close>, and the four columns \<^verbatim>\<open>cols[0..3]\<close>
  of \<^verbatim>\<open>Mat4f\<close> are \<open>col0\<close> to \<open>col3\<close>.  \<^verbatim>\<open>GibgoVertex\<close> is the vertex of
  \<^verbatim>\<open>gibgo_graphics.h\<close>, \<^verbatim>\<open>TransformedVertex\<close> the one of the pipeline.
\<close>

record Vec3f =
  v3x :: f32
  v3y :: f32
  v3z :: f32

record Vec4f =
  v4x :: f32
  v4y :: f32
  v4z :: f32
  v4w :: f32

record Mat4f =
  col0 :: Vec4f
  col1 :: Vec4f
  col2 :: Vec4f
  col3 :: Vec4f

record GibgoVertex =
  vertex_position :: Vec3f
  vertex_color :: Vec3f

record TransformedVertex =
  position :: Vec3f
  color :: Vec3f
  is_valid :: bool

definition vec3f_create :: "f32 \<Rightarrow> f32 \<Rightarrow> f32 \<Rightarrow> Vec3f" where
  "vec3f_create a b c = \<lparr> v3x = a, v3y = b, v3z = c \<rparr>"

definition vec4f_create :: "f32 \<Rightarrow> f32 \<Rightarrow> f32 \<Rightarrow> f32 \<Rightarrow> Vec4f" where
  "vec4f_create a b c d = \<lparr> v4x = a, v4y = b, v4z = c, v4w = d \<rparr>"

definition mat4f_identity :: Mat4f where
  "mat4f_identity =
     \<lparr> col0 = vec4f_create F32_ONE F32_ZERO F32_ZERO F32_ZERO,
       col1 = vec4f_create F32_ZERO F32_ONE F32_ZERO F32_ZERO,
       col2 = vec4f_create F32_ZERO F32_ZERO F32_ONE F32_ZERO,
       col3 = vec4f_create F32_ZERO F32_ZERO F32_ZERO F32_ONE \<rparr>"

definition mat4f_mul_vec4f :: "Mat4f \<Rightarrow> Vec4f \<Rightarrow> Vec4f" where
  "mat4f_mul_vec4f m v =
     vec4f_create
       (f32_add (f32_add (f32_mul (v4x (col0 m)) (v4x v)) (f32_mul (v4x (col1 m)) (v4y v)))
                (f32_add (f32_mul (v4x (col2 m)) (v4z v)) (f32_mul (v4x (col3 m)) (v4w v))))
       (f32_add (f32_add (f32_mul (v4y (col0 m)) (v4x v)) (f32_mul (v4y (col1 m)) (v4y v)))
                (f32_add (f32_mul (v4y (col2 m)) (v4z v)) (f32_mul (v4y (col3 m)) (v4w v))))
       (f32_add (f32_add (f32_mul (v4z (col0 m)) (v4x v)) (f32_mul (v4z (col1 m)) (v4y v)))
                (f32_add (f32_mul (v4z (col2 m)) (v4z v)) (f32_mul (v4z (col3 m)) (v4w v))))
       (f32_add (f32_add (f32_mul (v4w (col0 m)) (v4x v)) (f32_mul (v4w (col1 m)) (v4y v)))
                (f32_add (f32_mul (v4w (col2 m)) (v4z v)) (f32_mul (v4w (col3 m)) (v4w v))))"

section \<open>Vertex transform and clipping\<close>

text \<open>
  \<^verbatim>\<open>transform_vertex_to_screen\<close> of \<^verbatim>\<open>gpu_commands.c\<close>.  Its debug output is not
  modelled.  \<open>vertex_clip_space\<close> is its steps 1 and 2 (the local \<^verbatim>\<open>clip_space\<close>),
  \<open>inside_frustum\<close> its step 3; the result starts zero-initialised, so a rejected vertex
  has position and colour zero.
\<close>

definition vertex_clip_space :: "GibgoVertex \<Rightarrow> Mat4f \<Rightarrow> Vec4f" where
  "vertex_clip_space vertex mvp =
     mat4f_mul_vec4f mvp
       (vec4f_create (v3x (vertex_position vertex)) (v3y (vertex_position vertex))
          (v3z (vertex_position vertex)) F32_ONE)"

definition inside_frustum :: "Vec4f \<Rightarrow> bool" where
  "inside_frustum clip_space =
     (let w_abs = f32_abs (v4w clip_space)
      in f32_gt w_abs F32_ZERO \<and>
         f32_le (f32_abs (v4x clip_space)) w_abs \<and>
         f32_le (f32_abs (v4y clip_space)) w_abs)"

definition transform_vertex_to_screen ::
  "GibgoVertex \<Rightarrow> Mat4f \<Rightarrow> u32 \<Rightarrow> u32 \<Rightarrow> TransformedVertex" where
  "transform_vertex_to_screen vertex mvp screen_width screen_height =
     (let clip_space = vertex_clip_space vertex mvp
      in if inside_frustum clip_space
         then
           let w_inv = f32_div F32_ONE (v4w clip_space);
               ndc_x = f32_mul (v4x clip_space) w_inv;
               ndc_y = f32_mul (v4y clip_space) w_inv;
               ndc_z = f32_mul (v4z clip_space) w_inv;
               screen_x = f32_mul (f32_add (f32_mul ndc_x F32_HALF) F32_HALF)
                            (f32_from_u32 screen_width);
               screen_y = f32_mul (f32_sub F32_ONE (f32_add (f32_mul ndc_y F32_HALF) F32_HALF))
                            (f32_from_u32 screen_height)
           in \<lparr> position = vec3f_create screen_x screen_y ndc_z,
                color = vertex_color vertex,
                is_valid = True \<rparr>
         else \<lparr> position = vec3f_create 0 0 0, color = vec3f_create 0 0 0,
                is_valid = False \<rparr>)"

section \<open>Rasterizer\<close>

text \<open>
  \<^verbatim>\<open>point_in_triangle_barycentric\<close>: the result is \<open>None\<close> where the C function returns
  false (a degenerate triangle, or a weight that fails the test) and \<open>Some (u, v, w)\<close>
  where it returns true and stores the weights.  \<open>0x358637BD\<close> is the float
  \<^verbatim>\<open>0.000001f\<close>.  \<open>barycentric_weights\<close> is the part of the function up to the
  containment test.
\<close>

definition barycentric_denom ::
  "f32 \<Rightarrow> f32 \<Rightarrow> f32 \<Rightarrow> f32 \<Rightarrow> f32 \<Rightarrow> f32 \<Rightarrow> f32" where
  "barycentric_denom x1 y1 x2 y2 x3 y3 =
     (let v0x = f32_sub x3 x1; v0y = f32_sub y3 y1;
          v1x = f32_sub x2 x1; v1y = f32_sub y2 y1;
          dot00 = f32_add (f32_mul v0x v0x) (f32_mul v0y v0y);
          dot01 = f32_add (f32_mul v0x v1x) (f32_mul v0y v1y);
          dot11 = f32_add (f32_mul v1x v1x) (f32_mul v1y v1y)
      in f32_sub (f32_mul dot00 dot11) (f32_mul dot01 dot01))"

definition barycentric_weights ::
  "f32 \<Rightarrow> f32 \<Rightarrow> f32 \<Rightarrow> f32 \<Rightarrow> f32 \<Rightarrow> f32 \<Rightarrow> f32 \<Rightarrow> f32 \<Rightarrow> f32 \<times> f32 \<times> f32" where
  "barycentric_weights px py x1 y1 x2 y2 x3 y3 =
     (let v0x = f32_sub x3 x1; v0y = f32_sub y3 y1;
          v1x = f32_sub x2 x1; v1y = f32_sub y2 y1;
          v2x = f32_sub px x1; v2y = f32_sub py y1;
          dot00 = f32_add (f32_mul v0x v0x) (f32_mul v0y v0y);
          dot01 = f32_add (f32_mul v0x v1x) (f32_mul v0y v1y);
          dot02 = f32_add (f32_mul v0x v2x) (f32_mul v0y v2y);
          dot11 = f32_add (f32_mul v1x v1x) (f32_mul v1y v1y);
          dot12 = f32_add (f32_mul v1x v2x) (f32_mul v1y v2y);
          denom = f32_sub (f32_mul dot00 dot11) (f32_mul dot01 dot01);
          inv_denom = f32_div F32_ONE denom;
          u = f32_mul (f32_sub (f32_mul dot11 dot02) (f32_mul dot01 dot12)) inv_denom;
          v = f32_mul (f32_sub (f32_mul dot00 dot12) (f32_mul dot01 dot02)) inv_denom;
          w = f32_sub F32_ONE (f32_add u v)
      in (u, v, w))"

definition point_in_triangle_barycentric ::
  "f32 \<Rightarrow> f32 \<Rightarrow> f32 \<Rightarrow> f32 \<Rightarrow> f32 \<Rightarrow> f32 \<Rightarrow> f32 \<Rightarrow> f32 \<Rightarrow> (f32 \<times> f32 \<times> f32) option" where
  "point_in_triangle_barycentric px py x1 y1 x2 y2 x3 y3 =
     (if f32_le (f32_abs (barycentric_denom x1 y1 x2 y2 x3 y3)) 0x358637BD then None
      else
        case barycentric_weights px py x1 y1 x2 y2 x3 y3 of
          (u, v, w) \<Rightarrow>
            if f32_ge u F32_ZERO \<and> f32_ge v F32_ZERO \<and> f32_ge w F32_ZERO
            then Some (u, v, w) else None)"

definition interpolate_triangle_color ::
  "Vec3f \<Rightarrow> Vec3f \<Rightarrow> Vec3f \<Rightarrow> f32 \<Rightarrow> f32 \<Rightarrow> f32 \<Rightarrow> Vec3f" where
  "interpolate_triangle_color c1 c2 c3 u v w =
     \<lparr> v3x = f32_add (f32_add (f32_mul u (v3x c3)) (f32_mul v (v3x c2))) (f32_mul w (v3x c1)),
       v3y = f32_add (f32_add (f32_mul u (v3y c3)) (f32_mul v (v3y c2))) (f32_mul w (v3y c1)),
       v3z = f32_add (f32_add (f32_mul u (v3z c3)) (f32_mul v (v3z c2))) (f32_mul w (v3z c1)) \<rparr>"

text \<open>
  The conversion of one colour channel to eight bits,
  \<^verbatim>\<open>(u32)(f32_to_native(f32_clamp(c, F32_ZERO, F32_ONE)) * 255.0f)\<close>, and the packed pixel
  \<^verbatim>\<open>0xFF000000 | (r << 16) | (g << 8) | b\<close>.  \<open>0x437F0000\<close> is the float \<^verbatim>\<open>255.0f\<close>.
\<close>

definition color_channel :: "f32 \<Rightarrow> u32" where
  "color_channel c = float_to_u32 (float_mul (f32_clamp c F32_ZERO F32_ONE) 0x437F0000)"

definition pack_color :: "Vec3f \<Rightarrow> u32" where
  "pack_color pixel_color =
     0xFF000000 OR push_bit 16 (color_channel (v3x pixel_color))
                OR push_bit 8 (color_channel (v3y pixel_color))
                OR color_channel (v3z pixel_color)"

text \<open>
  The framebuffer is the memory at the pointer \<^verbatim>\<open>framebuffer\<close>, a store from the pixel
  index to the pixel.  \<open>triangle_pixel\<close> is what the body of the pixel loop computes for the
  pixel \<open>(x, y)\<close>: the colour when the pixel is inside the triangle.  \<open>rasterize_pixel\<close> is
  the whole body, with the store at \<^verbatim>\<open>pixel_index = y * width + x\<close> (unsigned 32-bit
  arithmetic) under the guard \<^verbatim>\<open>pixel_index < width * height\<close>.
\<close>

type_synonym framebuffer = "nat \<Rightarrow> u32"

definition triangle_pixel ::
  "TransformedVertex \<Rightarrow> TransformedVertex \<Rightarrow> TransformedVertex \<Rightarrow> int \<Rightarrow> int \<Rightarrow> u32 option" where
  "triangle_pixel v1 v2 v3 px py =
     (case point_in_triangle_barycentric (f32_from_i32 px) (f32_from_i32 py)
             (v3x (position v1)) (v3y (position v1))
             (v3x (position v2)) (v3y (position v2))
             (v3x (position v3)) (v3y (position v3)) of
        None \<Rightarrow> None
      | Some (u, v, w) \<Rightarrow>
          Some (pack_color (interpolate_triangle_color (color v1) (color v2) (color v3) u v w)))"

definition pixel_index :: "u32 \<Rightarrow> int \<Rightarrow> int \<Rightarrow> u32" where
  "pixel_index width px py = word_of_int py * width + word_of_int px"

definition rasterize_pixel ::
  "u32 \<Rightarrow> u32 \<Rightarrow> TransformedVertex \<Rightarrow> TransformedVertex \<Rightarrow> TransformedVertex \<Rightarrow>
   int \<Rightarrow> framebuffer \<Rightarrow> int \<Rightarrow> framebuffer" where
  "rasterize_pixel width height v1 v2 v3 py fb px =
     (case triangle_pixel v1 v2 v3 px py of
        None \<Rightarrow> fb
      | Some final_color \<Rightarrow>
          if pixel_index width px py < width * height
          then fb (unat (pixel_index width px py) := final_color)
          else fb)"

text \<open>The integer bounds of the bounding box, clamped to the screen.\<close>

definition raster_start_x :: "TransformedVertex \<Rightarrow> TransformedVertex \<Rightarrow> TransformedVertex \<Rightarrow> int" where
  "raster_start_x v1 v2 v3 =
     float_to_i32 (f32_max (f32_min (f32_min (v3x (position v1)) (v3x (position v2)))
                                    (v3x (position v3))) F32_ZERO)"

definition raster_end_x ::
  "u32 \<Rightarrow> TransformedVertex \<Rightarrow> TransformedVertex \<Rightarrow> TransformedVertex \<Rightarrow> int" where
  "raster_end_x width v1 v2 v3 =
     float_to_i32 (f32_min (f32_max (f32_max (v3x (position v1)) (v3x (position v2)))
                                    (v3x (position v3))) (f32_from_u32 (width - 1)))"

definition raster_start_y :: "TransformedVertex \<Rightarrow> TransformedVertex \<Rightarrow> TransformedVertex \<Rightarrow> int" where
  "raster_start_y v1 v2 v3 =
     float_to_i32 (f32_max (f32_min (f32_min (v3y (position v1)) (v3y (position v2)))
                                    (v3y (position v3))) F32_ZERO)"

definition raster_end_y ::
  "u32 \<Rightarrow> TransformedVertex \<Rightarrow> TransformedVertex \<Rightarrow> TransformedVertex \<Rightarrow> int" where
  "raster_end_y height v1 v2 v3 =
     float_to_i32 (f32_min (f32_max (f32_max (v3y (position v1)) (v3y (position v2)))
                                    (v3y (position v3))) (f32_from_u32 (height - 1)))"

text \<open>
  \<^verbatim>\<open>rasterize_triangle\<close>: the two nested loops over the rows \<^verbatim>\<open>start_y .. end_y\<close> and the
  columns \<^verbatim>\<open>start_x .. end_x\<close> of the bounding box.
\<close>

definition rasterize_row ::
  "u32 \<Rightarrow> u32 \<Rightarrow> TransformedVertex \<Rightarrow> TransformedVertex \<Rightarrow> TransformedVertex \<Rightarrow>
   int \<Rightarrow> int \<Rightarrow> framebuffer \<Rightarrow> int \<Rightarrow> framebuffer" where
  "rasterize_row width height v1 v2 v3 start_x end_x fb py =
     foldl (rasterize_pixel width height v1 v2 v3 py) fb [start_x..end_x]"

definition rasterize_triangle ::
  "framebuffer \<Rightarrow> u32 \<Rightarrow> u32 \<Rightarrow> TransformedVertex \<Rightarrow> TransformedVertex \<Rightarrow> TransformedVertex \<Rightarrow>
   framebuffer" where
  "rasterize_triangle fb width height v1 v2 v3 =
     foldl (rasterize_row width height v1 v2 v3
              (raster_start_x v1 v2 v3) (raster_end_x width v1 v2 v3))
       fb [raster_start_y v1 v2 v3..raster_end_y height v1 v2 v3]"

text \<open>\<^verbatim>\<open>is_triangle_back_facing\<close>: the sign of the 2D cross product of the two edges from
  the first vertex.\<close>

definition triangle_cross_product_z ::
  "TransformedVertex \<Rightarrow> TransformedVertex \<Rightarrow> TransformedVertex \<Rightarrow> f32" where
  "triangle_cross_product_z v1 v2 v3 =
     (let edge1_x = f32_sub (v3x (position v2)) (v3x (position v1));
          edge1_y = f32_sub (v3y (position v2)) (v3y (position v1));
          edge2_x = f32_sub (v3x (position v3)) (v3x (position v1));
          edge2_y = f32_sub (v3y (position v3)) (v3y (position v1))
      in f32_sub (f32_mul edge1_x edge2_y) (f32_mul edge1_y edge2_x))"

definition is_triangle_back_facing ::
  "TransformedVertex \<Rightarrow> TransformedVertex \<Rightarrow> TransformedVertex \<Rightarrow> bool" where
  "is_triangle_back_facing v1 v2 v3 \<longleftrightarrow> f32_lt (triangle_cross_product_z v1 v2 v3) F32_ZERO"

section \<open>Drawing a triangle list\<close>

text \<open>
  The triangle loop of \<^verbatim>\<open>render_3d_cube_software\<close>.  \<open>render_triangle\<close> is one iteration
  (steps 4 to 7) for the three vertices of a triangle: transform, skip when a vertex was
  clipped, skip when culling is on and the triangle faces backwards, rasterize otherwise.
  \<open>render_triangles\<close> is the loop \<^verbatim>\<open>for (i = first_vertex; i < vertex_count; i += 3)\<close> with
  its \<^verbatim>\<open>break\<close> at \<^verbatim>\<open>i + 2 >= vertex_count\<close>, over the vertex array \<open>vertices\<close>; the
  counter is a natural number (the vertex counts that can be mapped are far below the
  wrap-around of \<^verbatim>\<open>u32\<close>), and \<open>n\<close> bounds the number of iterations.
\<close>

definition render_triangle ::
  "framebuffer \<Rightarrow> u32 \<Rightarrow> u32 \<Rightarrow> Mat4f \<Rightarrow> bool \<Rightarrow> GibgoVertex \<Rightarrow> GibgoVertex \<Rightarrow> GibgoVertex \<Rightarrow>
   framebuffer" where
  "render_triangle fb width height mvp face_culling_enabled v1 v2 v3 =
     (let tv1 = transform_vertex_to_screen v1 mvp width height;
          tv2 = transform_vertex_to_screen v2 mvp width height;
          tv3 = transform_vertex_to_screen v3 mvp width height
      in if \<not> is_valid tv1 \<or> \<not> is_valid tv2 \<or> \<not> is_valid tv3 then fb
         else if face_culling_enabled \<and> is_triangle_back_facing tv1 tv2 tv3 then fb
         else rasterize_triangle fb width height tv1 tv2 tv3)"

function render_triangles ::
  "framebuffer \<Rightarrow> u32 \<Rightarrow> u32 \<Rightarrow> Mat4f \<Rightarrow> bool \<Rightarrow> (nat \<Rightarrow> GibgoVertex) \<Rightarrow> nat \<Rightarrow> nat \<Rightarrow>
   framebuffer" where
  "render_triangles fb width height mvp face_culling_enabled vertices vertex_count i =
     (if i < vertex_count \<and> \<not> (i + 2 \<ge> vertex_count)
      then render_triangles
             (render_triangle fb width height mvp face_culling_enabled
                (vertices i) (vertices (i + 1)) (vertices (i + 2)))
             width height mvp face_culling_enabled vertices vertex_count (i + 3)
      else fb)"
  by pat_completeness auto
termination
  by (relation "measure (\<lambda>(fb, width, height, mvp, cull, vertices, vertex_count, i). vertex_count - i)")
     auto

declare render_triangles.simps [simp del]

text \<open>
  \<^verbatim>\<open>render_3d_cube_software\<close>: it maps the vertex buffer (\<^verbatim>\<open>vertex_count * sizeof(GibgoVertex)\<close>
  bytes, 32 bytes a vertex) and the uniform buffer (\<^verbatim>\<open>sizeof(GibgoUniformBuffer)\<close>, 288
  bytes), returns without drawing when a mapping fails, and runs the triangle loop on the
  vertex array and the MVP matrix found at the two CPU pointers.  \<open>vertices_at\<close> and
  \<open>mvp_at\<close> are the typed views of memory: the vertex array and the \<^verbatim>\<open>mvp_matrix\<close> of the
  uniform buffer stored at a CPU address.
\<close>

definition render_3d_cube_software ::
  "GibgoGPUDevice \<Rightarrow> (u64 \<Rightarrow> nat \<Rightarrow> GibgoVertex) \<Rightarrow> (u64 \<Rightarrow> Mat4f) \<Rightarrow>
   framebuffer \<Rightarrow> u32 \<Rightarrow> u32 \<Rightarrow> u64 \<Rightarrow> u64 \<Rightarrow> u32 \<Rightarrow> u32 \<Rightarrow> bool \<Rightarrow> framebuffer" where
  "render_3d_cube_software device vertices_at mvp_at fb width height
       vertex_buffer_addr uniform_buffer_addr vertex_count first_vertex face_culling_enabled =
     (case gibgo_map_gpu_memory device vertex_buffer_addr (ucast vertex_count * 32) of
        (GIBGO_RESULT_SUCCESS, Some vertex_memory) \<Rightarrow>
          if vertex_memory = 0 then fb
          else
            (case gibgo_map_gpu_memory device uniform_buffer_addr 288 of
               (GIBGO_RESULT_SUCCESS, Some uniform_memory) \<Rightarrow>
                 if uniform_memory = 0 then fb
                 else render_triangles fb width height (mvp_at uniform_memory)
                        face_culling_enabled (vertices_at vertex_memory)
                        (unat vertex_count) (unat first_vertex)
             | _ \<Rightarrow> fb)
      | _ \<Rightarrow> fb)"

section \<open>The depth-tested rasterizer\<close>

text \<open>
  The second rasterizer of the repository, in the \<^verbatim>\<open>gpu_commands.c\<close> of the
  \<^verbatim>\<open>gibgoGraphics\<close> variant: it works on native floats and keeps a depth buffer.  Its
  functions \<^verbatim>\<open>rasterize_triangle\<close> is \<open>rasterize_triangle_depth\<close> here, since the name is
  taken by the rasterizer above.  \<^verbatim>\<open>CubeVertex\<close> is its vertex struct.

  The library functions: \<^verbatim>\<open>fabsf\<close> clears the sign; \<^verbatim>\<open>fmaxf\<close> and \<^verbatim>\<open>fminf\<close> return the
  first argument when it compares greater (less) or equal or when the second is a NaN, and
  the second argument otherwise.
\<close>

record CubeVertex =
  cube_position :: Vec3f
  cube_color :: Vec3f

definition float_neg :: "f32 \<Rightarrow> f32" where
  "float_neg a = a XOR 0x80000000"

definition fabsf :: "f32 \<Rightarrow> f32" where
  "fabsf a = a AND 0x7FFFFFFF"

definition fmaxf :: "f32 \<Rightarrow> f32 \<Rightarrow> f32" where
  "fmaxf a b = (if float_le b a \<or> float_is_nan b then a else b)"

definition fminf :: "f32 \<Rightarrow> f32 \<Rightarrow> f32" where
  "fminf a b = (if float_le a b \<or> float_is_nan b then a else b)"

text \<open>
  \<^verbatim>\<open>transform_vertex\<close>: a rotation by the entries \<^verbatim>\<open>cols[0].x\<close> and \<^verbatim>\<open>cols[1].x\<close> of the
  model matrix; the view and projection matrices are not used.
\<close>

definition transform_vertex :: "CubeVertex \<Rightarrow> Mat4f \<Rightarrow> Vec3f" where
  "transform_vertex vertex model =
     (let px = v3x (cube_position vertex);
          py = v3y (cube_position vertex);
          pz = v3z (cube_position vertex);
          cos_angle = v4x (col0 model);
          sin_angle = v4x (col1 model);
          x_rot = float_sub (float_mul px cos_angle) (float_mul py sin_angle);
          y_rot = float_add (float_mul px sin_angle) (float_mul py cos_angle);
          z_rot = pz
      in vec3f_create x_rot y_rot z_rot)"

text \<open>
  The screen coordinates of a transformed vertex:
  \<^verbatim>\<open>x * scale + width / 2\<close> and \<^verbatim>\<open>-y * scale + height / 2\<close> with \<^verbatim>\<open>scale = 150.0f\<close>
  (\<open>0x43160000\<close>); the halves are unsigned integer divisions, converted to float for the
  sum.
\<close>

definition screen_x_of :: "u32 \<Rightarrow> Vec3f \<Rightarrow> f32" where
  "screen_x_of width tv = float_add (float_mul (v3x tv) 0x43160000) (float_of_u32 (width div 2))"

definition screen_y_of :: "u32 \<Rightarrow> Vec3f \<Rightarrow> f32" where
  "screen_y_of height tv =
     float_add (float_mul (float_neg (v3y tv)) 0x43160000) (float_of_u32 (height div 2))"

text \<open>
  A triangle on the screen, as the head of \<^verbatim>\<open>rasterize_triangle\<close> computes it from the three
  vertices: the screen coordinates and depths \<^verbatim>\<open>x0 y0 z0\<close>, \<^verbatim>\<open>x1 y1 z1\<close>, \<^verbatim>\<open>x2 y2 z2\<close>
  and the three vertex colours.
\<close>

record ScreenTriangle =
  scr_x0 :: f32  scr_y0 :: f32  scr_z0 :: f32
  scr_x1 :: f32  scr_y1 :: f32  scr_z1 :: f32
  scr_x2 :: f32  scr_y2 :: f32  scr_z2 :: f32
  scr_c0 :: Vec3f  scr_c1 :: Vec3f  scr_c2 :: Vec3f

definition screen_triangle ::
  "u32 \<Rightarrow> u32 \<Rightarrow> CubeVertex \<Rightarrow> CubeVertex \<Rightarrow> CubeVertex \<Rightarrow> Mat4f \<Rightarrow> ScreenTriangle" where
  "screen_triangle width height v0 v1 v2 model =
     (let tv0 = transform_vertex v0 model;
          tv1 = transform_vertex v1 model;
          tv2 = transform_vertex v2 model
      in \<lparr> scr_x0 = screen_x_of width tv0, scr_y0 = screen_y_of height tv0, scr_z0 = v3z tv0,
           scr_x1 = screen_x_of width tv1, scr_y1 = screen_y_of height tv1, scr_z1 = v3z tv1,
           scr_x2 = screen_x_of width tv2, scr_y2 = screen_y_of height tv2, scr_z2 = v3z tv2,
           scr_c0 = cube_color v0, scr_c1 = cube_color v1, scr_c2 = cube_color v2 \<rparr>)"

text \<open>The bounding box, clamped to the screen.\<close>

definition depth_min_x :: "ScreenTriangle \<Rightarrow> int" where
  "depth_min_x t = float_to_i32 (fmaxf 0 (fminf (fminf (scr_x0 t) (scr_x1 t)) (scr_x2 t)))"

definition depth_max_x :: "u32 \<Rightarrow> ScreenTriangle \<Rightarrow> int" where
  "depth_max_x width t =
     float_to_i32 (fminf (float_of_u32 (width - 1)) (fmaxf (fmaxf (scr_x0 t) (scr_x1 t)) (scr_x2 t)))"

definition depth_min_y :: "ScreenTriangle \<Rightarrow> int" where
  "depth_min_y t = float_to_i32 (fmaxf 0 (fminf (fminf (scr_y0 t) (scr_y1 t)) (scr_y2 t)))"

definition depth_max_y :: "u32 \<Rightarrow> ScreenTriangle \<Rightarrow> int" where
  "depth_max_y height t =
     float_to_i32 (fminf (float_of_u32 (height - 1)) (fmaxf (fmaxf (scr_y0 t) (scr_y1 t)) (scr_y2 t)))"

text \<open>
  The body of the pixel loop up to the depth test.  \<open>depth_denom\<close> is \<^verbatim>\<open>denom\<close>,
  \<open>depth_weights\<close> gives \<^verbatim>\<open>w0\<close>, \<^verbatim>\<open>w1\<close>, \<^verbatim>\<open>w2\<close>; the loop counters \<^verbatim>\<open>x\<close> and \<^verbatim>\<open>y\<close> are
  converted to float where they meet a float.  \<open>depth_fragment\<close> is \<open>None\<close> when the loop
  body goes on to the next pixel without a depth test (degenerate triangle, or a negative
  weight), and otherwise the interpolated depth \<^verbatim>\<open>z\<close> together with the pixel that is
  stored when the depth test passes.  \<open>0x358637BD\<close> is \<^verbatim>\<open>1e-6f\<close>, \<open>0x437F0000\<close> is
  \<^verbatim>\<open>255.0f\<close>.
\<close>

definition depth_denom :: "ScreenTriangle \<Rightarrow> f32" where
  "depth_denom t =
     float_add (float_mul (float_sub (scr_y1 t) (scr_y2 t)) (float_sub (scr_x0 t) (scr_x2 t)))
               (float_mul (float_sub (scr_x2 t) (scr_x1 t)) (float_sub (scr_y0 t) (scr_y2 t)))"

definition depth_weights :: "ScreenTriangle \<Rightarrow> int \<Rightarrow> int \<Rightarrow> f32 \<times> f32 \<times> f32" where
  "depth_weights t px py =
     (let denom = depth_denom t;
          fx = float_sub (float_of_int px) (scr_x2 t);
          fy = float_sub (float_of_int py) (scr_y2 t);
          w0 = float_div (float_add (float_mul (float_sub (scr_y1 t) (scr_y2 t)) fx)
                                    (float_mul (float_sub (scr_x2 t) (scr_x1 t)) fy)) denom;
          w1 = float_div (float_add (float_mul (float_sub (scr_y2 t) (scr_y0 t)) fx)
                                    (float_mul (float_sub (scr_x0 t) (scr_x2 t)) fy)) denom;
          w2 = float_sub (float_sub 0x3F800000 w0) w1
      in (w0, w1, w2))"

definition depth_channel :: "f32 \<Rightarrow> u32" where
  "depth_channel c = float_to_u32 (fminf (fmaxf (float_mul c 0x437F0000) 0) 0x437F0000)"

definition depth_color :: "ScreenTriangle \<Rightarrow> f32 \<Rightarrow> f32 \<Rightarrow> f32 \<Rightarrow> u32" where
  "depth_color t w0 w1 w2 =
     (let r = float_add (float_add (float_mul w0 (v3x (scr_c0 t))) (float_mul w1 (v3x (scr_c1 t))))
                        (float_mul w2 (v3x (scr_c2 t)));
          g = float_add (float_add (float_mul w0 (v3y (scr_c0 t))) (float_mul w1 (v3y (scr_c1 t))))
                        (float_mul w2 (v3y (scr_c2 t)));
          b = float_add (float_add (float_mul w0 (v3z (scr_c0 t))) (float_mul w1 (v3z (scr_c1 t))))
                        (float_mul w2 (v3z (scr_c2 t)))
      in 0xFF000000 OR push_bit 16 (depth_channel r) OR push_bit 8 (depth_channel g)
                    OR depth_channel b)"

definition depth_fragment :: "ScreenTriangle \<Rightarrow> int \<Rightarrow> int \<Rightarrow> (f32 \<times> u32) option" where
  "depth_fragment t px py =
     (if float_lt (fabsf (depth_denom t)) 0x358637BD then None
      else
        case depth_weights t px py of
          (w0, w1, w2) \<Rightarrow>
            if float_le 0 w0 \<and> float_le 0 w1 \<and> float_le 0 w2
            then Some (float_add (float_add (float_mul w0 (scr_z0 t)) (float_mul w1 (scr_z1 t)))
                                 (float_mul w2 (scr_z2 t)),
                       depth_color t w0 w1 w2)
            else None)"

text \<open>
  The depth test and the two stores of the loop body: the pixel and its depth are replaced
  when the new depth is less than the stored one.  The state of the loops is the
  framebuffer together with the depth buffer (a store of floats).
\<close>

type_synonym depth_state = "framebuffer \<times> (nat \<Rightarrow> f32)"

definition depth_pixel ::
  "u32 \<Rightarrow> ScreenTriangle \<Rightarrow> int \<Rightarrow> depth_state \<Rightarrow> int \<Rightarrow> depth_state" where
  "depth_pixel width t py s px =
     (case depth_fragment t px py of
        None \<Rightarrow> s
      | Some (z, pixel) \<Rightarrow>
          let i = unat (pixel_index width px py)
          in if float_lt z (snd s i)
             then ((fst s)(i := pixel), (snd s)(i := z))
             else s)"

definition depth_row ::
  "u32 \<Rightarrow> ScreenTriangle \<Rightarrow> int \<Rightarrow> int \<Rightarrow> depth_state \<Rightarrow> int \<Rightarrow> depth_state" where
  "depth_row width t min_x max_x s py = foldl (depth_pixel width t py) s [min_x..max_x]"

definition rasterize_triangle_depth ::
  "depth_state \<Rightarrow> u32 \<Rightarrow> u32 \<Rightarrow> CubeVertex \<Rightarrow> CubeVertex \<Rightarrow> CubeVertex \<Rightarrow> Mat4f \<Rightarrow>
   depth_state" where
  "rasterize_triangle_depth s width height v0 v1 v2 model =
     (let t = screen_triangle width height v0 v1 v2 model
      in foldl (depth_row width t (depth_min_x t) (depth_max_x width t)) s
           [depth_min_y t..depth_max_y height t])"

section \<open>Concrete devices\<close>

text \<open>
  A device right after start-up, for the concrete evaluations below: an empty pool of
  1 MiB at CPU address \<open>0x10000000\<close>, VRAM addresses starting at \<open>0x01000000\<close>
  (\<^verbatim>\<open>bar0_base + 0x01000000\<close> with a base of 0), no slot in use, the register block and
  the command buffer filled with zeros, the command processor at the generic offset
  \<open>0x1000\<close>.
\<close>

definition empty_slot :: GibgoGPUAllocation where
  "empty_slot = \<lparr> gpu_address = 0, cpu_pointer = 0, alloc_size = 0, in_use = False \<rparr>"

definition fresh_device :: GibgoGPUDevice where
  "fresh_device =
     \<lparr> vram_physical_address = 0x01000000,
       vram_size = 0x100000,
       vram_allocation_offset = 0,
       memory_pool = \<lparr> pool_memory = 0x10000000, pool_size = 0x100000, pool_used = 0,
                       allocation_count = 0, allocations = (\<lambda>i. empty_slot) \<rparr>,
       registers = (\<lambda>i. 0),
       command_processor_offset = 0x1000,
       cmd_ring = create_cmd_ring (\<lambda>i. 0),
       commands_submitted = 0 \<rparr>"

text \<open>A command with all four words zero, for the concrete evaluations.\<close>

definition nop_command :: GibgoGPUCommand where
  "nop_command = \<lparr> command_type = 0, param0 = 0, param1 = 0, param2 = 0 \<rparr>"

section \<open>Predicates of the statements\<close>

text \<open>
  A slot matches an address when it is in use and records exactly that address;
  the first matching slot is the one \<^verbatim>\<open>gibgo_map_gpu_memory\<close> decides at.
\<close>

definition slot_matches :: "GibgoGPUDevice \<Rightarrow> u64 \<Rightarrow> nat \<Rightarrow> bool" where
  "slot_matches device a i \<longleftrightarrow>
     in_use (allocations (memory_pool device) i) \<and>
     gpu_address (allocations (memory_pool device) i) = a"

definition first_match :: "GibgoGPUDevice \<Rightarrow> u64 \<Rightarrow> nat \<Rightarrow> bool" where
  "first_match device a i \<longleftrightarrow>
     i < 256 \<and> slot_matches device a i \<and> (\<forall>j<i. \<not> slot_matches device a j)"

section \<open>Concrete vertices and triangles\<close>

text \<open>
  The colours \<^verbatim>\<open>RGB_RED\<close>, \<^verbatim>\<open>RGB_GREEN\<close> and \<^verbatim>\<open>RGB_BLUE\<close> of \<^verbatim>\<open>math.h\<close>, and the
  inputs of the concrete evaluations: a vertex given by its first two coordinates (the
  third is 0), a transformed vertex given by its screen position in whole pixels, the
  matrix that differs from the identity in the last entry \<open>-1.0\<close> (\<open>0xBF800000\<close>) of
  its last column, the triangle with the screen positions \<open>(400, 150)\<close>, \<open>(200, 450)\<close>,
  \<open>(600, 450)\<close> in red, green and blue, and a red triangle with the corners
  \<open>(-1, 1)\<close>, \<open>(-1, -1)\<close>, \<open>(1, 1)\<close>, which the identity matrix and a viewport of 2 by 2
  pixels take to the screen positions \<open>(0, 0)\<close>, \<open>(0, 2)\<close>, \<open>(2, 0)\<close>.
\<close>

definition RGB_RED :: Vec3f where "RGB_RED = vec3f_create F32_ONE F32_ZERO F32_ZERO"

definition RGB_GREEN :: Vec3f where "RGB_GREEN = vec3f_create F32_ZERO F32_ONE F32_ZERO"

definition RGB_BLUE :: Vec3f where "RGB_BLUE = vec3f_create F32_ZERO F32_ZERO F32_ONE"

definition ndc_vertex :: "f32 \<Rightarrow> f32 \<Rightarrow> Vec3f \<Rightarrow> GibgoVertex" where
  "ndc_vertex a b c = \<lparr> vertex_position = vec3f_create a b F32_ZERO, vertex_color = c \<rparr>"

definition screen_vertex :: "int \<Rightarrow> int \<Rightarrow> Vec3f \<Rightarrow> TransformedVertex" where
  "screen_vertex sx sy c =
     \<lparr> position = vec3f_create (f32_from_i32 sx) (f32_from_i32 sy) F32_ZERO,
       color = c, is_valid = True \<rparr>"

definition flip_w_matrix :: Mat4f where
  "flip_w_matrix = mat4f_identity \<lparr> col3 := vec4f_create F32_ZERO F32_ZERO F32_ZERO 0xBF800000 \<rparr>"

definition tri_a :: TransformedVertex where "tri_a = screen_vertex 400 150 RGB_RED"

definition tri_b :: TransformedVertex where "tri_b = screen_vertex 200 450 RGB_GREEN"

definition tri_c :: TransformedVertex where "tri_c = screen_vertex 600 450 RGB_BLUE"

definition cw_v1 :: GibgoVertex where "cw_v1 = ndc_vertex 0xBF800000 0x3F800000 RGB_RED"

definition cw_v2 :: GibgoVertex where "cw_v2 = ndc_vertex 0xBF800000 0xBF800000 RGB_RED"

definition cw_v3 :: GibgoVertex where "cw_v3 = ndc_vertex 0x3F800000 0x3F800000 RGB_RED"

definition cw_t1 :: TransformedVertex where
  "cw_t1 = \<lparr> position = vec3f_create 0 0 0, color = RGB_RED, is_valid = True \<rparr>"

definition cw_t2 :: TransformedVertex where
  "cw_t2 = \<lparr> position = vec3f_create 0 0x40000000 0, color = RGB_RED, is_valid = True \<rparr>"

definition cw_t3 :: TransformedVertex where
  "cw_t3 = \<lparr> position = vec3f_create 0x40000000 0 0, color = RGB_RED, is_valid = True \<rparr>"

text \<open>
  For the depth-tested rasterizer: a vertex given by its three coordinates and its colour;
  two triangles with the same corners \<open>(0, 0)\<close>, \<open>(1, 0)\<close>, \<open>(0, 1)\<close>, one red at depth
  \<open>0.2\<close> (\<open>0x3E4CCCCD\<close>) and one blue at depth \<open>0.8\<close> (\<open>0x3F4CCCCD\<close>); what the head of
  the rasterizer makes of them on a screen of 800 by 600 with the identity as model matrix
  (the screen corners \<open>(400, 300)\<close>, \<open>(550, 300)\<close>, \<open>(400, 150)\<close>); and the buffers as
  \<^verbatim>\<open>gpu_execute_indexed_drawing\<close> clears them, every pixel \<open>0xFF000033\<close> and every depth
  \<^verbatim>\<open>1000.0f\<close> (\<open>0x447A0000\<close>).
\<close>

definition cube_vertex :: "f32 \<Rightarrow> f32 \<Rightarrow> f32 \<Rightarrow> Vec3f \<Rightarrow> CubeVertex" where
  "cube_vertex a b d c = \<lparr> cube_position = vec3f_create a b d, cube_color = c \<rparr>"

definition near_v0 :: CubeVertex where "near_v0 = cube_vertex 0 0 0x3E4CCCCD RGB_RED"

definition near_v1 :: CubeVertex where "near_v1 = cube_vertex 0x3F800000 0 0x3E4CCCCD RGB_RED"

definition near_v2 :: CubeVertex where "near_v2 = cube_vertex 0 0x3F800000 0x3E4CCCCD RGB_RED"

definition far_v0 :: CubeVertex where "far_v0 = cube_vertex 0 0 0x3F4CCCCD RGB_BLUE"

definition far_v1 :: CubeVertex where "far_v1 = cube_vertex 0x3F800000 0 0x3F4CCCCD RGB_BLUE"

definition far_v2 :: CubeVertex where "far_v2 = cube_vertex 0 0x3F800000 0x3F4CCCCD RGB_BLUE"

definition near_triangle :: ScreenTriangle where
  "near_triangle =
     \<lparr> scr_x0 = 0x43C80000, scr_y0 = 0x43960000, scr_z0 = 0x3E4CCCCD,
       scr_x1 = 0x44098000, scr_y1 = 0x43960000, scr_z1 = 0x3E4CCCCD,
       scr_x2 = 0x43C80000, scr_y2 = 0x43160000, scr_z2 = 0x3E4CCCCD,
       scr_c0 = RGB_RED, scr_c1 = RGB_RED, scr_c2 = RGB_RED \<rparr>"

definition far_triangle :: ScreenTriangle where
  "far_triangle =
     \<lparr> scr_x0 = 0x43C80000, scr_y0 = 0x43960000, scr_z0 = 0x3F4CCCCD,
       scr_x1 = 0x44098000, scr_y1 = 0x43960000, scr_z1 = 0x3F4CCCCD,
       scr_x2 = 0x43C80000, scr_y2 = 0x43160000, scr_z2 = 0x3F4CCCCD,
       scr_c0 = RGB_BLUE, scr_c1 = RGB_BLUE, scr_c2 = RGB_BLUE \<rparr>"

definition cleared_state :: depth_state where
  "cleared_state = (\<lambda>i. 0xFF000033, \<lambda>i. 0x447A0000)"

text \<open>
  The pixel and the depth stored at an index; the outcome of the depth test of the loop
  body on them; the bounding box of a triangle lying on the screen; and a pixel lying in
  the bounding box.
\<close>

definition pixel_at :: "depth_state \<Rightarrow> nat \<Rightarrow> u32 \<times> f32" where
  "pixel_at s i = (fst s i, snd s i)"

definition depth_test :: "(f32 \<times> u32) option \<Rightarrow> u32 \<times> f32 \<Rightarrow> u32 \<times> f32" where
  "depth_test fragment old =
     (case fragment of
        None \<Rightarrow> old
      | Some (z, pixel) \<Rightarrow> if float_lt z (snd old) then (pixel, z) else old)"

definition box_on_screen :: "u32 \<Rightarrow> u32 \<Rightarrow> ScreenTriangle \<Rightarrow> bool" where
  "box_on_screen width height t \<longleftrightarrow>
     0 \<le> depth_min_x t \<and> depth_max_x width t < uint width \<and>
     0 \<le> depth_min_y t \<and> depth_max_y height t < uint height"

definition in_box :: "u32 \<Rightarrow> u32 \<Rightarrow> ScreenTriangle \<Rightarrow> int \<Rightarrow> int \<Rightarrow> bool" where
  "in_box width height t px py \<longleftrightarrow>
     depth_min_x t \<le> px \<and> px \<le> depth_max_x width t \<and>
     depth_min_y t \<le> py \<and> py \<le> depth_max_y height t"

text \<open>
  What the body of the pixel loop leaves in the pixel \<open>(px, py)\<close> whose old content is
  \<open>old\<close>.
\<close>

definition pixel_value ::
  "u32 \<Rightarrow> u32 \<Rightarrow> TransformedVertex \<Rightarrow> TransformedVertex \<Rightarrow> TransformedVertex \<Rightarrow>
   int \<Rightarrow> int \<Rightarrow> u32 \<Rightarrow> u32" where
  "pixel_value width height v1 v2 v3 px py old =
     (case triangle_pixel v1 v2 v3 px py of
        None \<Rightarrow> old
      | Some final_color \<Rightarrow>
          if pixel_index width px py < width * height then final_color else old)"

section \<open>The floating-point model at work\<close>

text \<open>
  A few operations evaluated: \<open>1 + 1 = 2\<close>; \<open>1 / 3\<close> and \<open>0.1 + 0.2\<close> rounded to nearest;
  the integers \<open>2^24 + 1\<close> and \<open>2^24 + 3\<close> rounded to even; an overflow to infinity; a
  subnormal product; the signs of zero sums; the division by zero; the conversion of
  \<open>-2.5\<close> to an integer; and the order of the two zeros.
\<close>

lemma float_arithmetic_examples:
  "float_add 0x3F800000 0x3F800000 = 0x40000000"
  "float_div 0x3F800000 0x40400000 = 0x3EAAAAAB"
  "float_add 0x3DCCCCCD 0x3E4CCCCD = 0x3E99999A"
  "float_of_int 16777217 = 0x4B800000"
  "float_of_int 16777219 = 0x4B800002"
  "float_mul 0x7F7FFFFF 0x40000000 = 0x7F800000"
  "float_mul 0x00800000 0x3F000000 = 0x00400000"
  "float_sub 0x3F800000 0x3F800000 = 0"
  "float_add 0x80000000 0x80000000 = 0x80000000"
  "float_div 0x3F800000 0 = 0x7F800000"
  "float_div 0 0 = 0xFFC00000"
  "float_to_i32 0xC0200000 = - 2"
  "\<not> float_lt 0x80000000 0"
  "float_le 0x80000000 0"
  by code_simp+

section \<open>Properties of the allocator\<close>

lemma find_upt_Some:
  "find P [0..<n] = Some i \<longleftrightarrow> i < n \<and> P i \<and> (\<forall>j<i. \<not> P j)"
  by (auto simp: find_Some_iff)

lemma find_upt_None: "find P [0..<n] = None \<longleftrightarrow> (\<forall>i<n. \<not> P i)"
  by (auto simp: find_None_iff)

lemma find_first_match:
  "find (\<lambda>i. in_use (allocations (memory_pool device) i) \<and>
              gpu_address (allocations (memory_pool device) i) = a) [0..<256] = Some i
   \<longleftrightarrow> first_match device a i"
  by (simp add: find_upt_Some first_match_def slot_matches_def)

lemma find_no_match:
  "find (\<lambda>i. in_use (allocations (memory_pool device) i) \<and>
              gpu_address (allocations (memory_pool device) i) = a) [0..<256] = None
   \<longleftrightarrow> (\<forall>i<256. \<not> slot_matches device a i)"
  by (simp add: find_upt_None slot_matches_def)

lemma first_match_unique:
  assumes "first_match device a i" and "first_match device a j"
  shows "i = j"
proof (rule ccontr)
  assume "i \<noteq> j"
  then consider "i < j" | "j < i" by linarith
  then show False using assms by cases (auto simp: first_match_def)
qed

lemma map_at_first_match:
  assumes "first_match device a i" and "sz \<noteq> 0"
  shows "gibgo_map_gpu_memory device a sz =
           (if sz > alloc_size (allocations (memory_pool device) i)
            then (GIBGO_RESULT_ERROR_INVALID_PARAMETER, None)
            else (GIBGO_RESULT_SUCCESS, Some (cpu_pointer (allocations (memory_pool device) i))))"
proof -
  have "find (\<lambda>i. in_use (allocations (memory_pool device) i) \<and>
              gpu_address (allocations (memory_pool device) i) = a) [0..<256] = Some i"
    using assms(1) by (simp only: find_first_match)
  then show ?thesis using assms(2) by (simp add: gibgo_map_gpu_memory_def)
qed

lemma map_without_match:
  assumes "\<forall>i<256. \<not> slot_matches device a i"
  shows "gibgo_map_gpu_memory device a sz = (GIBGO_RESULT_ERROR_INVALID_PARAMETER, None)"
proof -
  have "find (\<lambda>i. in_use (allocations (memory_pool device) i) \<and>
              gpu_address (allocations (memory_pool device) i) = a) [0..<256] = None"
    using assms by (simp only: find_no_match)
  then show ?thesis by (simp add: gibgo_map_gpu_memory_def)
qed

lemma match_cases:
  "(\<forall>i<256. \<not> slot_matches device a i) \<or> (\<exists>i. first_match device a i)"
proof (cases "find (\<lambda>i. in_use (allocations (memory_pool device) i) \<and>
              gpu_address (allocations (memory_pool device) i) = a) [0..<256]")
  case None
  then show ?thesis by (simp only: find_no_match) simp
next
  case (Some i)
  then show ?thesis by (simp only: find_first_match) blast
qed

lemma map_outcomes:
  "(gibgo_map_gpu_memory device a sz = (GIBGO_RESULT_ERROR_INVALID_PARAMETER, None) \<longleftrightarrow>
      sz = 0 \<or> (\<forall>i<256. \<not> slot_matches device a i) \<or>
      (\<exists>i. first_match device a i \<and> alloc_size (allocations (memory_pool device) i) < sz)) \<and>
   (gibgo_map_gpu_memory device a sz = (GIBGO_RESULT_SUCCESS, Some p) \<longleftrightarrow>
      sz \<noteq> 0 \<and>
      (\<exists>i. first_match device a i \<and> sz \<le> alloc_size (allocations (memory_pool device) i) \<and>
           p = cpu_pointer (allocations (memory_pool device) i))) \<and>
   (gibgo_map_gpu_memory device a sz = (GIBGO_RESULT_ERROR_INVALID_PARAMETER, None) \<or>
    (\<exists>q. gibgo_map_gpu_memory device a sz = (GIBGO_RESULT_SUCCESS, Some q)))"
proof (cases "sz = 0")
  case True
  then show ?thesis by (simp add: gibgo_map_gpu_memory_def)
next
  case nz: False
  show ?thesis
  proof (cases "\<forall>i<256. \<not> slot_matches device a i")
    case True
    have "\<And>i. \<not> first_match device a i"
      using True by (auto simp: first_match_def)
    then show ?thesis using map_without_match[OF True] True by simp
  next
    case False
    then obtain i where i: "first_match device a i" using match_cases by blast
    have uniq: "\<And>j. first_match device a j \<longleftrightarrow> j = i"
      using i first_match_unique by blast
    show ?thesis
    proof (cases "alloc_size (allocations (memory_pool device) i) < sz")
      case True
      then show ?thesis
        using map_at_first_match[OF i nz] by (auto simp: uniq)
    next
      case False
      then show ?thesis
        using map_at_first_match[OF i nz] nz \<open>\<not> (\<forall>i<256. \<not> slot_matches device a i)\<close>
        by (auto simp: uniq not_less)
    qed
  qed
qed

text \<open>
  Claim C2.  The claim: every successful allocation rounds the requested size up to a
  multiple of 256, the returned addresses are strictly increasing and the ranges disjoint,
  and a request larger than what is left of the pool returns out-of-memory.  The rounding
  \<^verbatim>\<open>(size + 255) & ~255\<close> wraps around for a size above \<open>2^64 - 256\<close>: on the fresh device
  (1 MiB pool) a request of \<open>2^64 - 1\<close> bytes is rounded to 0 bytes and succeeds, and the
  following request of 1 byte succeeds with the very same address.
\<close>

theorem allocate_huge_size_repeats_address:
  "align_gpu_memory 0xFFFFFFFFFFFFFFFF GPU_MEMORY_ALIGNMENT = 0 \<and>
   fst (gibgo_allocate_gpu_memory fresh_device 0xFFFFFFFFFFFFFFFF) = GIBGO_RESULT_SUCCESS \<and>
   fst (snd (gibgo_allocate_gpu_memory fresh_device 0xFFFFFFFFFFFFFFFF)) = Some 0x01000000 \<and>
   fst (gibgo_allocate_gpu_memory
          (snd (snd (gibgo_allocate_gpu_memory fresh_device 0xFFFFFFFFFFFFFFFF))) 1)
     = GIBGO_RESULT_SUCCESS \<and>
   fst (snd (gibgo_allocate_gpu_memory
          (snd (snd (gibgo_allocate_gpu_memory fresh_device 0xFFFFFFFFFFFFFFFF))) 1))
     = Some 0x01000000"
  by code_simp

text \<open>
  Claim C8, as stated: mapping an address that lies inside the range of a live allocation,
  with a size that fits, succeeds.  It does not: after one allocation of 100 bytes on the
  fresh device, slot 0 records the range of 256 bytes at \<open>0x01000000\<close>, and mapping 16
  bytes at \<open>0x01000010\<close> is refused, because the lookup compares the address with the
  start of each allocation only.
\<close>

theorem map_inside_allocation_counterexample:
  "in_use (allocations (memory_pool (snd (snd (gibgo_allocate_gpu_memory fresh_device 100)))) 0) \<and>
   gpu_address (allocations (memory_pool (snd (snd (gibgo_allocate_gpu_memory fresh_device 100)))) 0)
     = 0x01000000 \<and>
   alloc_size (allocations (memory_pool (snd (snd (gibgo_allocate_gpu_memory fresh_device 100)))) 0)
     = 256 \<and>
   gibgo_map_gpu_memory (snd (snd (gibgo_allocate_gpu_memory fresh_device 100))) 0x01000010 16
     = (GIBGO_RESULT_ERROR_INVALID_PARAMETER, None)"
  by code_simp

text \<open>
  Claim C8, amended: \<^verbatim>\<open>gibgo_map_gpu_memory\<close> returns
  \<^verbatim>\<open>GIBGO_RESULT_ERROR_INVALID_PARAMETER\<close> exactly when the size is 0, or no slot in use
  records an address equal to the one asked for, or the size exceeds the size recorded
  in the first such slot; it returns success with the CPU pointer \<open>p\<close> exactly when the
  size is not 0 and the first slot in use with that address has room for the size and
  records \<open>p\<close>; and it has no third outcome.
\<close>

theorem map_result_characterised:
  "(gibgo_map_gpu_memory device a sz = (GIBGO_RESULT_ERROR_INVALID_PARAMETER, None) \<longleftrightarrow>
      sz = 0 \<or> (\<forall>i<256. \<not> slot_matches device a i) \<or>
      (\<exists>i. first_match device a i \<and> alloc_size (allocations (memory_pool device) i) < sz)) \<and>
   (gibgo_map_gpu_memory device a sz = (GIBGO_RESULT_SUCCESS, Some p) \<longleftrightarrow>
      sz \<noteq> 0 \<and>
      (\<exists>i. first_match device a i \<and> sz \<le> alloc_size (allocations (memory_pool device) i) \<and>
           p = cpu_pointer (allocations (memory_pool device) i))) \<and>
   (gibgo_map_gpu_memory device a sz = (GIBGO_RESULT_ERROR_INVALID_PARAMETER, None) \<or>
    (\<exists>q. gibgo_map_gpu_memory device a sz = (GIBGO_RESULT_SUCCESS, Some q)))"
  by (rule map_outcomes)

theorem map_result_characterised_witness:
  "(\<exists>i. first_match (snd (snd (gibgo_allocate_gpu_memory fresh_device 100))) 0x01000000 i \<and>
        16 \<le> alloc_size
                (allocations (memory_pool (snd (snd (gibgo_allocate_gpu_memory fresh_device 100)))) i) \<and>
        0x10000000 = cpu_pointer
                (allocations (memory_pool (snd (snd (gibgo_allocate_gpu_memory fresh_device 100)))) i))"
proof -
  have "gibgo_map_gpu_memory (snd (snd (gibgo_allocate_gpu_memory fresh_device 100))) 0x01000000 16
          = (GIBGO_RESULT_SUCCESS, Some 0x10000000)"
    by code_simp
  then show ?thesis
    using map_result_characterised
      [of "snd (snd (gibgo_allocate_gpu_memory fresh_device 100))" "0x01000000" 16 "0x10000000"]
    by blast
qed

lemma heap_write_other:
  "(\<And>k. k < length bs \<Longrightarrow> p + of_nat k \<noteq> q) \<Longrightarrow> heap_write h p bs q = h q"
proof (induction bs arbitrary: h p)
  case Nil
  then show ?case by simp
next
  case (Cons b bs)
  have "p \<noteq> q" using Cons.prems[of 0] by simp
  moreover have "heap_write (h(p := b)) (p + 1) bs q = (h(p := b)) q"
  proof (rule Cons.IH)
    fix k assume "k < length bs"
    then show "p + 1 + of_nat k \<noteq> q" using Cons.prems[of "Suc k"] by (simp add: add.assoc)
  qed
  ultimately show ?case by simp
qed

lemma of_nat_64_nonzero:
  "0 < k \<Longrightarrow> k < 2 ^ 64 \<Longrightarrow> (of_nat k :: u64) = 0 \<Longrightarrow> False"
proof -
  assume pos: "0 < k" and lt: "k < 2 ^ 64" and z: "(of_nat k :: u64) = 0"
  from z have "2 ^ 64 dvd k" by (simp add: word_of_nat_eq_0_iff)
  then have "2 ^ 64 \<le> k" using pos by (rule dvd_imp_le)
  then show False using lt by simp
qed

lemma heap_write_at:
  "k < length bs \<Longrightarrow> length bs \<le> 2 ^ 64 \<Longrightarrow> heap_write h p bs (p + of_nat k) = bs ! k"
proof (induction bs arbitrary: h p k)
  case Nil
  then show ?case by simp
next
  case (Cons b bs)
  show ?case
  proof (cases k)
    case 0
    have "heap_write (h(p := b)) (p + 1) bs p = (h(p := b)) p"
    proof (rule heap_write_other)
      fix j assume j: "j < length bs"
      have "(of_nat (Suc j) :: u64) \<noteq> 0"
        using j Cons.prems(2) of_nat_64_nonzero[of "Suc j"] by auto
      then show "p + 1 + of_nat j \<noteq> p" by (simp add: add.assoc)
    qed
    then show ?thesis using 0 by simp
  next
    case (Suc k')
    have "heap_write (h(p := b)) (p + 1) bs (p + 1 + of_nat k') = bs ! k'"
      using Cons.prems Suc by (intro Cons.IH) auto
    then show ?thesis using Suc by (simp add: add.assoc)
  qed
qed

lemma heap_read_nth:
  "k < n \<Longrightarrow> heap_read h p n ! k = h (p + of_nat k)"
proof (induction n arbitrary: p k)
  case 0
  then show ?case by simp
next
  case (Suc n)
  then show ?case by (cases k) (auto simp: add.assoc)
qed

lemma length_heap_read: "length (heap_read h p n) = n"
  by (induction n arbitrary: p) auto

lemma heap_read_write:
  assumes "length bs \<le> 2 ^ 64"
  shows "heap_read (heap_write h p bs) p (length bs) = bs"
proof (rule nth_equalityI)
  show "length (heap_read (heap_write h p bs) p (length bs)) = length bs"
    by (rule length_heap_read)
next
  fix k assume "k < length (heap_read (heap_write h p bs) p (length bs))"
  then have k: "k < length bs" by (simp add: length_heap_read)
  show "heap_read (heap_write h p bs) p (length bs) ! k = bs ! k"
    using k assms by (simp add: heap_read_nth heap_write_at)
qed

lemma unmap_of_mapped:
  assumes "gibgo_map_gpu_memory device a sz = (GIBGO_RESULT_SUCCESS, Some p)" and "p \<noteq> 0"
  shows "gibgo_unmap_gpu_memory device p sz' = GIBGO_RESULT_SUCCESS"
proof -
  obtain i where i: "first_match device a i"
      "p = cpu_pointer (allocations (memory_pool device) i)"
    using assms(1) map_outcomes[of device a sz p] by blast
  let ?P = "\<lambda>i. in_use (allocations (memory_pool device) i) \<and>
                 cpu_pointer (allocations (memory_pool device) i) = p"
  have "i < 256" "?P i" using i by (auto simp: first_match_def slot_matches_def)
  then have "find ?P [0..<256] \<noteq> None"
    by (auto simp: find_None_iff)
  then show ?thesis
    using assms(2) by (auto simp: gibgo_unmap_gpu_memory_def split: option.splits)
qed

text \<open>
  Claim C9.  When \<^verbatim>\<open>gibgo_map_gpu_memory\<close> returns a (non-\<^verbatim>\<open>NULL\<close>) pointer for an
  address and a size, then \<^verbatim>\<open>gibgo_unmap_gpu_memory\<close> on that pointer succeeds (it changes
  neither the device nor memory), a second map of the same address and size succeeds
  again, and a block of at most that size copied to the first pointer is read back
  unchanged through the second.
\<close>

theorem map_unmap_round_trip:
  assumes "gibgo_map_gpu_memory device a sz = (GIBGO_RESULT_SUCCESS, Some p)"
    and "p \<noteq> 0" and "length bs \<le> unat sz"
  shows "gibgo_unmap_gpu_memory device p sz = GIBGO_RESULT_SUCCESS \<and>
         (\<exists>q. gibgo_map_gpu_memory device a sz = (GIBGO_RESULT_SUCCESS, Some q) \<and>
              heap_read (heap_write h p bs) q (length bs) = bs)"
proof -
  have "unat sz < 2 ^ 64" using unsigned_less[of sz, where 'a = nat] by simp
  then have len: "length bs \<le> 2 ^ 64" using assms(3) by simp
  show ?thesis
    using unmap_of_mapped[OF assms(1,2)] assms(1) heap_read_write[OF len] by simp
qed

theorem map_unmap_round_trip_witness:
  "gibgo_unmap_gpu_memory (snd (snd (gibgo_allocate_gpu_memory fresh_device 100))) 0x10000000 4
     = GIBGO_RESULT_SUCCESS \<and>
   (\<exists>q. gibgo_map_gpu_memory (snd (snd (gibgo_allocate_gpu_memory fresh_device 100))) 0x01000000 4
          = (GIBGO_RESULT_SUCCESS, Some q) \<and>
        heap_read (heap_write (\<lambda>a. 0) 0x10000000 [1, 2, 3, 4]) q (length [1, 2, 3, 4 :: u8])
          = [1, 2, 3, 4])"
proof -
  have m: "gibgo_map_gpu_memory (snd (snd (gibgo_allocate_gpu_memory fresh_device 100))) 0x01000000 4
          = (GIBGO_RESULT_SUCCESS, Some 0x10000000)"
    by code_simp
  have nz: "(0x10000000 :: u64) \<noteq> 0" by simp
  have len: "length [1, 2, 3, 4 :: u8] \<le> unat (4 :: u64)" by simp
  show ?thesis
    by (rule map_unmap_round_trip [OF m nz len])
qed

text \<open>
  What the allocator does for the sizes it was written for.  A size of at most
  \<open>2^64 - 256\<close> is rounded up to the next multiple of 256; an allocation that fails leaves
  the device as it was; a request that does not fit into the pool (the sum taken without
  wrap-around) is refused; two successive allocations return increasing addresses, the
  second range starting where the first ends; and the address that an allocation returns
  can be mapped, for every size from 1 to the rounded size, when no other slot in use
  records the same address.
\<close>

lemma and_not_255: "(x :: u64) AND NOT 255 = push_bit 8 (drop_bit 8 x)"
proof -
  have m: "(255 :: u64) = mask 8" by (simp add: mask_eq_exp_minus_1)
  show ?thesis
    unfolding m by (rule bit_word_eqI) (auto simp: bit_simps)
qed

lemma unat_and_not_255: "unat ((x :: u64) AND NOT 255) = (unat x div 256) * 256"
proof -
  have "unat x div 256 * 256 \<le> unat x" by simp
  moreover have "unat x < 2 ^ 64" using unsigned_less[of x, where 'a = nat] by simp
  ultimately have lt: "unat x div 256 * 256 < 2 ^ 64" by linarith
  have "unat (push_bit 8 (drop_bit 8 x)) = take_bit 64 (push_bit 8 (drop_bit 8 (unat x)))"
    by (simp add: unsigned_push_bit_eq unat_drop_bit_eq)
  also have "\<dots> = (unat x div 256 * 256) mod 2 ^ 64"
    by (simp add: take_bit_eq_mod push_bit_eq_mult drop_bit_eq_div)
  also have "\<dots> = unat x div 256 * 256" using lt by simp
  finally show ?thesis by (simp only: and_not_255)
qed

lemma align_gpu_memory_256: "align_gpu_memory sz GPU_MEMORY_ALIGNMENT = (sz + 255) AND NOT 255"
proof -
  have "sz + 256 - 1 = sz + 255" by simp
  moreover have "(256 :: u64) - 1 = 255" by simp
  ultimately show ?thesis
    by (simp only: align_gpu_memory_def GPU_MEMORY_ALIGNMENT_def)
qed

lemma align_gpu_memory_in_range:
  assumes "unat sz \<le> 2 ^ 64 - 256"
  shows "unat (align_gpu_memory sz GPU_MEMORY_ALIGNMENT) = (unat sz + 255) div 256 * 256"
proof -
  have "unat sz + unat (255 :: u64) < 2 ^ LENGTH(64)" using assms by simp
  then have "unat (sz + 255) = unat sz + unat (255 :: u64)"
    by (rule unat_add_lem[THEN iffD1])
  then have "unat (sz + 255) = unat sz + 255" by simp
  then show ?thesis
    by (simp only: align_gpu_memory_256 unat_and_not_255)
qed

lemma round_256_bounds:
  fixes n :: nat
  shows "n \<le> (n + 255) div 256 * 256" and "(n + 255) div 256 * 256 < n + 256"
proof -
  have "(n + 255) div 256 * 256 = n + 255 - (n + 255) mod 256"
    by (simp add: minus_mod_eq_div_mult)
  moreover have "(n + 255) mod 256 < 256" by simp
  ultimately show "n \<le> (n + 255) div 256 * 256" and "(n + 255) div 256 * 256 < n + 256"
    by linarith+
qed

lemma align_gpu_memory_rounds_up:
  assumes "unat sz \<le> 2 ^ 64 - 256"
  shows "sz \<le> align_gpu_memory sz GPU_MEMORY_ALIGNMENT"
    and "unat (align_gpu_memory sz GPU_MEMORY_ALIGNMENT) < unat sz + 256"
    and "256 dvd unat (align_gpu_memory sz GPU_MEMORY_ALIGNMENT)"
    and "sz \<noteq> 0 \<Longrightarrow> align_gpu_memory sz GPU_MEMORY_ALIGNMENT \<noteq> 0"
proof -
  let ?a = "align_gpu_memory sz GPU_MEMORY_ALIGNMENT"
  have a: "unat ?a = (unat sz + 255) div 256 * 256"
    by (rule align_gpu_memory_in_range[OF assms])
  note lo = round_256_bounds(1)[of "unat sz"] and hi = round_256_bounds(2)[of "unat sz"]
  show "sz \<le> ?a" using lo by (simp only: word_le_nat_alt a)
  show "unat ?a < unat sz + 256" using hi by (simp only: a)
  show "256 dvd unat ?a" by (simp only: a dvd_triv_right)
  assume "sz \<noteq> 0"
  then have "0 < unat sz" by (simp add: unat_gt_0)
  then have "0 < unat ?a" using lo unfolding a by linarith
  then show "?a \<noteq> 0" by (simp add: unat_gt_0)
qed

lemma allocate_failure_keeps_device:
  assumes "fst (gibgo_allocate_gpu_memory device sz) \<noteq> GIBGO_RESULT_SUCCESS"
  shows "snd (gibgo_allocate_gpu_memory device sz) = (None, device)"
  using assms by (auto simp: gibgo_allocate_gpu_memory_def Let_def split: if_splits)

lemma allocate_out_of_memory:
  assumes "sz \<noteq> 0"
    and "unat (pool_used (memory_pool device))
           + unat (align_gpu_memory sz GPU_MEMORY_ALIGNMENT) < 2 ^ 64"
    and "unat (pool_size (memory_pool device))
           < unat (pool_used (memory_pool device)) + unat (align_gpu_memory sz GPU_MEMORY_ALIGNMENT)"
  shows "gibgo_allocate_gpu_memory device sz = (GIBGO_RESULT_ERROR_OUT_OF_MEMORY, None, device)"
proof -
  let ?a = "align_gpu_memory sz GPU_MEMORY_ALIGNMENT"
  have "unat (pool_used (memory_pool device) + ?a) = unat (pool_used (memory_pool device)) + unat ?a"
    using assms(2) by (simp add: unat_add_lem[THEN iffD1])
  then have "pool_size (memory_pool device) < pool_used (memory_pool device) + ?a"
    using assms(3) by (simp add: word_less_nat_alt)
  then show ?thesis
    using assms(1) by (simp add: gibgo_allocate_gpu_memory_def Let_def)
qed

lemma allocate_success:
  assumes "sz \<noteq> 0"
    and "unat (pool_used (memory_pool device))
           + unat (align_gpu_memory sz GPU_MEMORY_ALIGNMENT)
         \<le> unat (pool_size (memory_pool device))"
    and "allocation_count (memory_pool device) < 256"
  shows "\<exists>device'. gibgo_allocate_gpu_memory device sz =
           (GIBGO_RESULT_SUCCESS,
            Some (vram_physical_address device + vram_allocation_offset device), device') \<and>
         vram_physical_address device' = vram_physical_address device \<and>
         vram_allocation_offset device' =
           vram_allocation_offset device + align_gpu_memory sz GPU_MEMORY_ALIGNMENT \<and>
         pool_used (memory_pool device') =
           pool_used (memory_pool device) + align_gpu_memory sz GPU_MEMORY_ALIGNMENT \<and>
         pool_size (memory_pool device') = pool_size (memory_pool device) \<and>
         allocation_count (memory_pool device') = allocation_count (memory_pool device) + 1"
proof -
  let ?a = "align_gpu_memory sz GPU_MEMORY_ALIGNMENT"
  have "unat (pool_size (memory_pool device)) < 2 ^ 64"
    using unsigned_less[of "pool_size (memory_pool device)", where 'a = nat] by simp
  then have "unat (pool_used (memory_pool device)) + unat ?a < 2 ^ LENGTH(64)"
    using assms(2) by simp
  then have "unat (pool_used (memory_pool device) + ?a)
      = unat (pool_used (memory_pool device)) + unat ?a"
    by (simp add: unat_add_lem[THEN iffD1])
  then have "\<not> pool_size (memory_pool device) < pool_used (memory_pool device) + ?a"
    using assms(2) by (simp add: word_less_nat_alt)
  moreover have "\<not> 256 \<le> allocation_count (memory_pool device)"
    using assms(3) by (simp add: not_le)
  ultimately show ?thesis
    using assms(1) by (simp add: gibgo_allocate_gpu_memory_def Let_def)
qed

lemma find_unused_slot_bound: "find_unused_slot allocs < 256"
  by (auto simp: find_unused_slot_def find_Some_iff split: option.splits)

lemma allocate_then_map:
  assumes ok: "gibgo_allocate_gpu_memory device sz = (GIBGO_RESULT_SUCCESS, Some a, device')"
    and fresh: "\<forall>i<256. \<not> slot_matches device a i"
    and m: "msz \<noteq> 0" "msz \<le> align_gpu_memory sz GPU_MEMORY_ALIGNMENT"
  shows "gibgo_map_gpu_memory device' a msz =
           (GIBGO_RESULT_SUCCESS,
            Some (pool_memory (memory_pool device) + pool_used (memory_pool device)))"
proof -
  let ?pool = "memory_pool device"
  let ?k = "find_unused_slot (allocations ?pool)"
  let ?al = "align_gpu_memory sz GPU_MEMORY_ALIGNMENT"
  let ?slot = "\<lparr> gpu_address = a, cpu_pointer = pool_memory ?pool + pool_used ?pool,
                 alloc_size = ?al, in_use = True \<rparr>"
  have a: "a = vram_physical_address device + vram_allocation_offset device"
    and d': "allocations (memory_pool device') = (allocations ?pool)(?k := ?slot)"
    using ok by (auto simp: gibgo_allocate_gpu_memory_def Let_def split: if_splits)
  have k: "?k < 256" by (rule find_unused_slot_bound)
  have "first_match device' a ?k"
    unfolding first_match_def slot_matches_def
  proof (intro conjI allI impI)
    show "?k < 256" by (rule k)
    show "in_use (allocations (memory_pool device') ?k)" by (simp add: d')
    show "gpu_address (allocations (memory_pool device') ?k) = a" by (simp add: d')
    fix j assume j: "j < ?k"
    then have "j < 256" using k by simp
    then have "\<not> slot_matches device a j" using fresh by simp
    then show "\<not> (in_use (allocations (memory_pool device') j) \<and>
             gpu_address (allocations (memory_pool device') j) = a)"
      using j by (simp add: d' slot_matches_def)
  qed
  then show ?thesis
    using map_at_first_match[of device' a ?k msz] m by (simp add: d' not_less[symmetric] leD)
qed

lemma allocate_result_address:
  assumes "gibgo_allocate_gpu_memory device sz = (GIBGO_RESULT_SUCCESS, Some a, device')"
  shows "sz \<noteq> 0"
    and "a = vram_physical_address device + vram_allocation_offset device"
    and "vram_physical_address device' = vram_physical_address device"
    and "vram_allocation_offset device' =
           vram_allocation_offset device + align_gpu_memory sz GPU_MEMORY_ALIGNMENT"
  using assms by (auto simp: gibgo_allocate_gpu_memory_def Let_def split: if_splits)

lemma successive_allocations_increase:
  assumes first: "gibgo_allocate_gpu_memory device size1 = (GIBGO_RESULT_SUCCESS, Some a1, device1)"
    and second: "gibgo_allocate_gpu_memory device1 size2 = (GIBGO_RESULT_SUCCESS, Some a2, device2)"
    and range: "unat size1 \<le> 2 ^ 64 - 256"
    and nowrap: "unat a1 + unat (align_gpu_memory size1 GPU_MEMORY_ALIGNMENT) < 2 ^ 64"
  shows "a2 = a1 + align_gpu_memory size1 GPU_MEMORY_ALIGNMENT" and "a1 < a2"
proof -
  let ?al = "align_gpu_memory size1 GPU_MEMORY_ALIGNMENT"
  note f = allocate_result_address[OF first] and s = allocate_result_address[OF second]
  show a2: "a2 = a1 + ?al"
    by (simp add: s(2) f(2,3,4) add.assoc)
  have "?al \<noteq> 0" using align_gpu_memory_rounds_up(4)[OF range f(1)] .
  then have pos: "0 < unat ?al" by (simp add: unat_gt_0)
  have "unat a1 + unat ?al < 2 ^ LENGTH(64)" using nowrap by simp
  then have "unat (a1 + ?al) = unat a1 + unat ?al"
    by (rule unat_add_lem[THEN iffD1])
  then show "a1 < a2" using pos by (simp add: a2 word_less_nat_alt)
qed


section \<open>Properties of the command ring\<close>

lemma unat_next_tail:
  fixes t cap :: u32
  assumes "unat t < unat cap"
  shows "unat ((t + 1) mod cap) = (unat t + 1) mod unat cap"
proof -
  have "unat cap < 2 ^ 32" using unsigned_less[of cap, where 'a = nat] by simp
  then have "unat t + unat (1 :: u32) < 2 ^ LENGTH(32)" using assms by simp
  then have "unat (t + 1) = unat t + 1" by (simp add: unat_add_lem[THEN iffD1])
  then show ?thesis by (simp add: unat_mod)
qed

lemma mod_shift_neq:
  fixes h j c :: nat
  assumes "h < c" and "j + 1 < c"
  shows "(h + j + 1) mod c \<noteq> h"
proof (cases "h + j + 1 < c")
  case True
  then show ?thesis by simp
next
  case False
  then have "(h + j + 1) mod c = h + j + 1 - c"
    using assms by (simp add: mod_if)
  then show ?thesis using assms False by simp
qed

lemma write_ring_command_fields:
  "head_offset (write_ring_command ring cmd nt) = head_offset ring"
  "capacity (write_ring_command ring cmd nt) = capacity ring"
  "tail_offset (write_ring_command ring cmd nt) = nt"
  "buffer_size (write_ring_command ring cmd nt) = buffer_size ring"
  by (simp_all add: write_ring_command_def Let_def)

lemma write_commands_step:
  assumes "\<not> ring_full (cmd_ring device)"
  shows "write_commands_to_ring device (cmd # cmds) =
           write_commands_to_ring
             (device \<lparr> cmd_ring := write_ring_command (cmd_ring device) cmd
                         ((tail_offset (cmd_ring device) + 1) mod capacity (cmd_ring device)) \<rparr>)
             cmds"
  using assms by (simp add: ring_full_def Let_def)

lemma write_commands_append:
  "write_commands_to_ring device (xs @ ys) =
     (case write_commands_to_ring device xs of
        (r, device') \<Rightarrow>
          if r = GIBGO_RESULT_SUCCESS then write_commands_to_ring device' ys else (r, device'))"
proof (induction xs arbitrary: device)
  case Nil
  then show ?case by simp
next
  case (Cons x xs)
  show ?case
  proof (cases "ring_full (cmd_ring device)")
    case False
    show ?thesis
      unfolding append_Cons write_commands_step[OF False] by (rule Cons.IH)
  next
    case True
    obtain hd tmo where w: "wait_for_ring_space 1000000
        ((tail_offset (cmd_ring device) + 1) mod capacity (cmd_ring device))
        (head_offset (cmd_ring device)) (cmd_regs device 4) = (hd, tmo)"
      by (cases "wait_for_ring_space 1000000
        ((tail_offset (cmd_ring device) + 1) mod capacity (cmd_ring device))
        (head_offset (cmd_ring device)) (cmd_regs device 4)")
    show ?thesis
      using True w by (cases "tmo = 0") (simp_all add: ring_full_def Let_def Cons.IH)
  qed
qed

lemma write_commands_from_offset:
  assumes "unat (capacity (cmd_ring device)) = c"
    and "unat (head_offset (cmd_ring device)) = h" and "h < c"
    and "unat (tail_offset (cmd_ring device)) = (h + j) mod c"
    and "j + length cmds < c"
  shows "\<exists>device'. write_commands_to_ring device cmds = (GIBGO_RESULT_SUCCESS, device') \<and>
           head_offset (cmd_ring device') = head_offset (cmd_ring device) \<and>
           capacity (cmd_ring device') = capacity (cmd_ring device) \<and>
           buffer_size (cmd_ring device') = buffer_size (cmd_ring device) \<and>
           unat (tail_offset (cmd_ring device')) = (h + j + length cmds) mod c \<and>
           registers device' = registers device \<and>
           command_processor_offset device' = command_processor_offset device"
  using assms
proof (induction cmds arbitrary: device j)
  case Nil
  then show ?case by simp
next
  case (Cons cmd cmds)
  let ?ring = "cmd_ring device"
  let ?nt = "(tail_offset ?ring + 1) mod capacity ?ring"
  have tl: "unat (tail_offset ?ring) < unat (capacity ?ring)"
    using Cons.prems by simp
  have nt: "unat ?nt = (h + j + 1) mod c"
    using unat_next_tail[OF tl] Cons.prems by (simp add: mod_Suc_eq)
  have "unat ?nt \<noteq> h"
    unfolding nt using Cons.prems by (intro mod_shift_neq) auto
  then have notfull: "\<not> ring_full ?ring"
    using Cons.prems(2) by (auto simp: ring_full_def)
  let ?d1 = "device \<lparr> cmd_ring := write_ring_command ?ring cmd ?nt \<rparr>"
  have "\<exists>device'. write_commands_to_ring ?d1 cmds = (GIBGO_RESULT_SUCCESS, device') \<and>
           head_offset (cmd_ring device') = head_offset (cmd_ring ?d1) \<and>
           capacity (cmd_ring device') = capacity (cmd_ring ?d1) \<and>
           buffer_size (cmd_ring device') = buffer_size (cmd_ring ?d1) \<and>
           unat (tail_offset (cmd_ring device')) = (h + Suc j + length cmds) mod c \<and>
           registers device' = registers ?d1 \<and>
           command_processor_offset device' = command_processor_offset ?d1"
  proof (rule Cons.IH)
    show "unat (capacity (cmd_ring ?d1)) = c"
      using Cons.prems by (simp add: write_ring_command_fields)
    show "unat (head_offset (cmd_ring ?d1)) = h"
      using Cons.prems by (simp add: write_ring_command_fields)
    show "h < c" by fact
    show "unat (tail_offset (cmd_ring ?d1)) = (h + Suc j) mod c"
      using nt by (simp add: write_ring_command_fields)
    show "Suc j + length cmds < c" using Cons.prems by simp
  qed
  then show ?case
    unfolding write_commands_step[OF notfull]
    by (simp add: write_ring_command_fields)
qed

lemma wait_without_progress: "wait_for_ring_space n nt nt nt = (nt, 0)"
  by (induction n) auto

lemma write_commands_prefix_not_full:
  assumes empty: "head_offset (cmd_ring device) = tail_offset (cmd_ring device)"
    and inside: "tail_offset (cmd_ring device) < capacity (cmd_ring device)"
    and k: "k \<le> length cmds" and n: "k + 1 < unat (capacity (cmd_ring device))"
  shows "\<not> ring_full (cmd_ring (snd (write_commands_to_ring device (take k cmds))))"
proof -
  let ?c = "unat (capacity (cmd_ring device))"
  let ?h = "unat (head_offset (cmd_ring device))"
  have h: "?h < ?c" using empty inside by (simp add: word_less_nat_alt)
  have len: "0 + length (take k cmds) < ?c" using k n by simp
  have t0: "unat (tail_offset (cmd_ring device)) = (?h + 0) mod ?c" using empty h by simp
  obtain d' where d': "write_commands_to_ring device (take k cmds) = (GIBGO_RESULT_SUCCESS, d')"
      "head_offset (cmd_ring d') = head_offset (cmd_ring device)"
      "capacity (cmd_ring d') = capacity (cmd_ring device)"
      "unat (tail_offset (cmd_ring d')) = (?h + 0 + length (take k cmds)) mod ?c"
    using write_commands_from_offset[OF refl refl h t0 len] by auto
  have kk: "length (take k cmds) = k" using k by simp
  have tl: "unat (tail_offset (cmd_ring d')) < unat (capacity (cmd_ring d'))"
    using d'(3,4) h by simp
  have "unat ((tail_offset (cmd_ring d') + 1) mod capacity (cmd_ring d')) = (?h + k + 1) mod ?c"
    using unat_next_tail[OF tl] d'(3,4) kk by (simp add: mod_Suc_eq)
  moreover have "(?h + k + 1) mod ?c \<noteq> ?h"
    using h k n by (intro mod_shift_neq) auto
  ultimately show ?thesis
    using d'(1,2) by (auto simp: ring_full_def)
qed

lemma write_commands_below_capacity:
  assumes empty: "head_offset (cmd_ring device) = tail_offset (cmd_ring device)"
    and inside: "tail_offset (cmd_ring device) < capacity (cmd_ring device)"
    and n: "length cmds < unat (capacity (cmd_ring device))"
  shows "\<exists>d'. write_commands_to_ring device cmds = (GIBGO_RESULT_SUCCESS, d') \<and>
           head_offset (cmd_ring d') = head_offset (cmd_ring device) \<and>
           capacity (cmd_ring d') = capacity (cmd_ring device) \<and>
           buffer_size (cmd_ring d') = buffer_size (cmd_ring device) \<and>
           unat (tail_offset (cmd_ring d')) =
             (unat (head_offset (cmd_ring device)) + length cmds)
               mod unat (capacity (cmd_ring device)) \<and>
           registers d' = registers device \<and>
           command_processor_offset d' = command_processor_offset device"
proof -
  let ?c = "unat (capacity (cmd_ring device))"
  let ?h = "unat (head_offset (cmd_ring device))"
  have h: "?h < ?c" using empty inside by (simp add: word_less_nat_alt)
  have len: "0 + length cmds < ?c" using n by simp
  have t0: "unat (tail_offset (cmd_ring device)) = (?h + 0) mod ?c" using empty h by simp
  show ?thesis
    using write_commands_from_offset[OF refl refl h t0 len] by simp
qed

lemma write_commands_at_capacity:
  assumes empty: "head_offset (cmd_ring device) = tail_offset (cmd_ring device)"
    and inside: "tail_offset (cmd_ring device) < capacity (cmd_ring device)"
    and n: "length cmds = unat (capacity (cmd_ring device))"
  shows "ring_full (cmd_ring (snd (write_commands_to_ring device (butlast cmds))))"
    and "cmd_regs device 4 = head_offset (cmd_ring device) \<Longrightarrow>
         fst (write_commands_to_ring device cmds) = GIBGO_RESULT_ERROR_GPU_TIMEOUT"
proof -
  let ?c = "unat (capacity (cmd_ring device))"
  let ?h = "unat (head_offset (cmd_ring device))"
  have h: "?h < ?c" using empty inside by (simp add: word_less_nat_alt)
  then have ne: "cmds \<noteq> []" using n by auto
  have len: "length (butlast cmds) < ?c" using n h by simp
  obtain d' where d': "write_commands_to_ring device (butlast cmds) = (GIBGO_RESULT_SUCCESS, d')"
      "head_offset (cmd_ring d') = head_offset (cmd_ring device)"
      "capacity (cmd_ring d') = capacity (cmd_ring device)"
      "unat (tail_offset (cmd_ring d')) = (?h + length (butlast cmds)) mod ?c"
      "registers d' = registers device"
      "command_processor_offset d' = command_processor_offset device"
    using write_commands_below_capacity[OF empty inside len] by auto
  have tl: "unat (tail_offset (cmd_ring d')) < unat (capacity (cmd_ring d'))"
    using d'(3,4) h by simp
  have "unat ((tail_offset (cmd_ring d') + 1) mod capacity (cmd_ring d')) =
          (?h + (?c - 1) + 1) mod ?c"
    using unat_next_tail[OF tl] d'(3,4) n by (simp add: mod_Suc_eq)
  also have "\<dots> = ?h" using h by simp
  finally have nt: "(tail_offset (cmd_ring d') + 1) mod capacity (cmd_ring d') =
      head_offset (cmd_ring d')"
    using d'(2) by (simp add: word_unat_eq_iff)
  then show full: "ring_full (cmd_ring (snd (write_commands_to_ring device (butlast cmds))))"
    using d'(1) by (simp add: ring_full_def)
  assume reg: "cmd_regs device 4 = head_offset (cmd_ring device)"
  have regs: "cmd_regs d' 4 = head_offset (cmd_ring d')"
    using reg d'(2,5,6) by (simp add: cmd_regs_def)
  have split: "cmds = butlast cmds @ [last cmds]" using ne by simp
  have "write_commands_to_ring d' [last cmds] =
          (GIBGO_RESULT_ERROR_GPU_TIMEOUT,
           d' \<lparr> cmd_ring := (cmd_ring d') \<lparr> head_offset := head_offset (cmd_ring d') \<rparr> \<rparr>)"
    using nt regs by (simp add: Let_def wait_without_progress)
  then have "fst (write_commands_to_ring device (butlast cmds @ [last cmds])) =
      GIBGO_RESULT_ERROR_GPU_TIMEOUT"
    using d'(1) by (simp add: write_commands_append)
  then show "fst (write_commands_to_ring device cmds) = GIBGO_RESULT_ERROR_GPU_TIMEOUT"
    using split by simp
qed

text \<open>
  Claim C3.  Starting from an empty ring (head equal to tail, inside the ring), with the
  head register never advancing: while fewer commands than the capacity are submitted,
  the full-ring test fails at every iteration and the submission succeeds; when exactly
  as many commands as the capacity are submitted, the test fails for all but the last
  command, holds at the last one, and (the head register still showing the old head) the
  wait runs out and the submission returns \<^verbatim>\<open>GIBGO_RESULT_ERROR_GPU_TIMEOUT\<close>.  The state
  at iteration \<open>k\<close> is the state after the first \<open>k\<close> commands.
\<close>

theorem ring_capacity_invariant:
  assumes "head_offset (cmd_ring device) = tail_offset (cmd_ring device)"
    and "tail_offset (cmd_ring device) < capacity (cmd_ring device)"
  shows "(length cmds < unat (capacity (cmd_ring device)) \<longrightarrow>
            fst (write_commands_to_ring device cmds) = GIBGO_RESULT_SUCCESS \<and>
            (\<forall>k<length cmds.
               \<not> ring_full (cmd_ring (snd (write_commands_to_ring device (take k cmds)))))) \<and>
         (length cmds = unat (capacity (cmd_ring device)) \<longrightarrow>
            (\<forall>k<length cmds - 1.
               \<not> ring_full (cmd_ring (snd (write_commands_to_ring device (take k cmds))))) \<and>
            ring_full (cmd_ring (snd (write_commands_to_ring device (butlast cmds)))) \<and>
            (cmd_regs device 4 = head_offset (cmd_ring device) \<longrightarrow>
               fst (write_commands_to_ring device cmds) = GIBGO_RESULT_ERROR_GPU_TIMEOUT))"
proof (intro conjI impI allI)
  assume n: "length cmds < unat (capacity (cmd_ring device))"
  show "fst (write_commands_to_ring device cmds) = GIBGO_RESULT_SUCCESS"
    using write_commands_below_capacity[OF assms n] by auto
next
  fix k assume "length cmds < unat (capacity (cmd_ring device))" and "k < length cmds"
  then show "\<not> ring_full (cmd_ring (snd (write_commands_to_ring device (take k cmds))))"
    using write_commands_prefix_not_full[OF assms, of k cmds] by simp
next
  fix k assume "length cmds = unat (capacity (cmd_ring device))" and "k < length cmds - 1"
  then show "\<not> ring_full (cmd_ring (snd (write_commands_to_ring device (take k cmds))))"
    using write_commands_prefix_not_full[OF assms, of k cmds] by simp
next
  assume "length cmds = unat (capacity (cmd_ring device))"
  then show "ring_full (cmd_ring (snd (write_commands_to_ring device (butlast cmds))))"
    by (rule write_commands_at_capacity(1)[OF assms])
next
  assume "length cmds = unat (capacity (cmd_ring device))"
    and "cmd_regs device 4 = head_offset (cmd_ring device)"
  then show "fst (write_commands_to_ring device cmds) = GIBGO_RESULT_ERROR_GPU_TIMEOUT"
    by (rule write_commands_at_capacity(2)[OF assms])
qed

lemma fresh_ring_fields:
  "head_offset (cmd_ring fresh_device) = 0"
  "tail_offset (cmd_ring fresh_device) = 0"
  "capacity (cmd_ring fresh_device) = 1024"
  "buffer_size (cmd_ring fresh_device) = 4096"
  by (simp_all add: fresh_device_def create_cmd_ring_def Let_def)

lemma create_ring_index_in_buffer:
  fixes ring_index :: u32
  assumes "ring_index < 1024" and "k < 4"
  shows "in_command_buffer (create_cmd_ring contents) (unat (ring_index * 4 + of_nat k))
           \<longleftrightarrow> ring_index < 256"
proof -
  have ri: "unat ring_index < 1024" using assms(1) by (simp add: word_less_nat_alt)
  have "unat (ring_index * 4 + of_nat k) = unat ring_index * 4 + k"
    using ri assms(2) by (simp add: unat_word_ariths unat_of_nat)
  moreover have "unat (buffer_size (create_cmd_ring contents)) = 4096"
    by (simp add: create_cmd_ring_def Let_def)
  ultimately show ?thesis
    using assms(2) by (auto simp: in_command_buffer_def word_less_nat_alt)
qed

text \<open>
  Claim C10.  The claim: the four stores of every command lie inside the command buffer.
  The buffer of a created device has \<open>capacity * 4 = 4096\<close> bytes, that is 1024 words, and
  a command at ring index \<open>i\<close> is stored in the words \<open>4 * i\<close> to \<open>4 * i + 3\<close>: the stores
  are inside the buffer only for the ring indices below 256.  On the fresh device the
  257th command is stored without any error at word 1024, the first word past the end.
\<close>

theorem ring_write_past_command_buffer:
  "fst (write_commands_to_ring fresh_device (replicate 257 cmd)) = GIBGO_RESULT_SUCCESS \<and>
   tail_offset (cmd_ring (snd (write_commands_to_ring fresh_device (replicate 256 cmd)))) = 256 \<and>
   command_buffer (cmd_ring (snd (write_commands_to_ring fresh_device (replicate 257 cmd)))) 1024
     = command_type cmd \<and>
   buffer_size (cmd_ring (snd (write_commands_to_ring fresh_device (replicate 257 cmd)))) = 4096 \<and>
   \<not> in_command_buffer
       (cmd_ring (snd (write_commands_to_ring fresh_device (replicate 257 cmd)))) 1024"
proof -
  have e: "head_offset (cmd_ring fresh_device) = tail_offset (cmd_ring fresh_device)"
    and i: "tail_offset (cmd_ring fresh_device) < capacity (cmd_ring fresh_device)"
    by (simp_all add: fresh_ring_fields)
  have n: "length (replicate 256 cmd) < unat (capacity (cmd_ring fresh_device))"
    by (simp add: fresh_ring_fields)
  obtain d where d: "write_commands_to_ring fresh_device (replicate 256 cmd) = (GIBGO_RESULT_SUCCESS, d)"
      "head_offset (cmd_ring d) = 0" "capacity (cmd_ring d) = 1024"
      "buffer_size (cmd_ring d) = 4096" "unat (tail_offset (cmd_ring d)) = 256"
    using write_commands_below_capacity[OF e i n] by (auto simp: fresh_ring_fields)
  have t: "tail_offset (cmd_ring d) = 256"
    using d(5) by (simp add: word_unat_eq_iff)
  have r: "replicate 257 cmd = replicate 256 cmd @ [cmd]"
    using replicate_add[of 256 1 cmd] by simp
  have step: "write_commands_to_ring d [cmd] =
      (GIBGO_RESULT_SUCCESS, d \<lparr> cmd_ring := write_ring_command (cmd_ring d) cmd 257 \<rparr>)"
    using t d(2,3) by (simp add: Let_def)
  have all: "write_commands_to_ring fresh_device (replicate 257 cmd) =
      (GIBGO_RESULT_SUCCESS, d \<lparr> cmd_ring := write_ring_command (cmd_ring d) cmd 257 \<rparr>)"
    unfolding r using d(1) step by (simp add: write_commands_append)
  show ?thesis
    unfolding all using d t
    by (simp add: write_ring_command_def Let_def in_command_buffer_def)
qed

theorem ring_capacity_invariant_witness:
  "fst (write_commands_to_ring fresh_device (replicate 3 nop_command)) = GIBGO_RESULT_SUCCESS \<and>
   \<not> ring_full (cmd_ring (snd (write_commands_to_ring fresh_device (take 2 (replicate 3 nop_command))))) \<and>
   ring_full (cmd_ring (snd (write_commands_to_ring fresh_device (butlast (replicate 1024 nop_command))))) \<and>
   fst (write_commands_to_ring fresh_device (replicate 1024 nop_command)) = GIBGO_RESULT_ERROR_GPU_TIMEOUT"
proof -
  have e: "head_offset (cmd_ring fresh_device) = tail_offset (cmd_ring fresh_device)"
    and i: "tail_offset (cmd_ring fresh_device) < capacity (cmd_ring fresh_device)"
    by (simp_all add: fresh_ring_fields)
  have reg: "cmd_regs fresh_device 4 = head_offset (cmd_ring fresh_device)"
    by (simp add: cmd_regs_def fresh_device_def create_cmd_ring_def Let_def)
  show ?thesis
    using ring_capacity_invariant[OF e i, of "replicate 3 nop_command"]
      ring_capacity_invariant[OF e i, of "replicate 1024 nop_command"] reg
    by (simp add: fresh_ring_fields)
qed

section \<open>Properties of the rasterizer\<close>

lemma rasterize_pixel_other:
  "unat (pixel_index width px py) \<noteq> idx \<Longrightarrow>
   rasterize_pixel width height v1 v2 v3 py fb px idx = fb idx"
  by (simp add: rasterize_pixel_def split: option.splits)

lemma rasterize_pixel_at:
  "rasterize_pixel width height v1 v2 v3 py fb px (unat (pixel_index width px py)) =
     pixel_value width height v1 v2 v3 px py (fb (unat (pixel_index width px py)))"
  by (simp add: rasterize_pixel_def pixel_value_def split: option.splits)

lemma row_other:
  "(\<And>px. px \<in> set xs \<Longrightarrow> unat (pixel_index width px py) \<noteq> idx) \<Longrightarrow>
   foldl (rasterize_pixel width height v1 v2 v3 py) fb xs idx = fb idx"
proof (induction xs arbitrary: fb)
  case Nil
  then show ?case by simp
next
  case (Cons a xs)
  have "foldl (rasterize_pixel width height v1 v2 v3 py)
          (rasterize_pixel width height v1 v2 v3 py fb a) xs idx
        = rasterize_pixel width height v1 v2 v3 py fb a idx"
    using Cons.prems by (intro Cons.IH) simp
  also have "\<dots> = fb idx"
    using Cons.prems by (intro rasterize_pixel_other) simp
  finally show ?case by simp
qed

lemma row_at:
  assumes "px0 \<in> set xs" and "distinct xs"
    and "\<And>px. px \<in> set xs \<Longrightarrow> px \<noteq> px0 \<Longrightarrow>
           unat (pixel_index width px py) \<noteq> unat (pixel_index width px0 py)"
  shows "foldl (rasterize_pixel width height v1 v2 v3 py) fb xs (unat (pixel_index width px0 py))
         = pixel_value width height v1 v2 v3 px0 py (fb (unat (pixel_index width px0 py)))"
proof -
  let ?f = "rasterize_pixel width height v1 v2 v3 py"
  let ?i = "unat (pixel_index width px0 py)"
  obtain as bs where xs: "xs = as @ px0 # bs"
    using assms(1) by (auto simp: in_set_conv_decomp)
  have nas: "px0 \<notin> set as" and nbs: "px0 \<notin> set bs"
    using assms(2) xs by auto
  have before: "foldl ?f fb as ?i = fb ?i"
    using assms(3) nas xs by (intro row_other) auto
  have "foldl ?f fb xs ?i = foldl ?f (?f (foldl ?f fb as) px0) bs ?i"
    by (simp add: xs)
  also have "\<dots> = ?f (foldl ?f fb as) px0 ?i"
    using assms(3) nbs xs by (intro row_other) auto
  also have "\<dots> = pixel_value width height v1 v2 v3 px0 py (foldl ?f fb as ?i)"
    by (rule rasterize_pixel_at)
  finally show ?thesis by (simp add: before)
qed

lemma rows_other:
  "(\<And>px py. px \<in> set xs \<Longrightarrow> py \<in> set ys \<Longrightarrow> unat (pixel_index width px py) \<noteq> idx) \<Longrightarrow>
   foldl (\<lambda>fb py. foldl (rasterize_pixel width height v1 v2 v3 py) fb xs) fb ys idx = fb idx"
proof (induction ys arbitrary: fb)
  case Nil
  then show ?case by simp
next
  case (Cons a ys)
  let ?row = "\<lambda>fb py. foldl (rasterize_pixel width height v1 v2 v3 py) fb xs"
  have "foldl ?row (?row fb a) ys idx = ?row fb a idx"
    using Cons.prems by (intro Cons.IH) simp
  also have "\<dots> = fb idx"
    using Cons.prems by (intro row_other) simp
  finally show ?case by simp
qed

lemma rows_at:
  assumes "px0 \<in> set xs" and "py0 \<in> set ys" and "distinct xs" and "distinct ys"
    and "\<And>px py. px \<in> set xs \<Longrightarrow> py \<in> set ys \<Longrightarrow> (px, py) \<noteq> (px0, py0) \<Longrightarrow>
           unat (pixel_index width px py) \<noteq> unat (pixel_index width px0 py0)"
  shows "foldl (\<lambda>fb py. foldl (rasterize_pixel width height v1 v2 v3 py) fb xs) fb ys
           (unat (pixel_index width px0 py0))
         = pixel_value width height v1 v2 v3 px0 py0 (fb (unat (pixel_index width px0 py0)))"
proof -
  let ?row = "\<lambda>fb py. foldl (rasterize_pixel width height v1 v2 v3 py) fb xs"
  let ?i = "unat (pixel_index width px0 py0)"
  obtain as bs where ys: "ys = as @ py0 # bs"
    using assms(2) by (auto simp: in_set_conv_decomp)
  have nas: "py0 \<notin> set as" and nbs: "py0 \<notin> set bs"
    using assms(4) ys by auto
  have before: "foldl ?row fb as ?i = fb ?i"
    using assms(5) nas ys by (intro rows_other) auto
  have "foldl ?row fb ys ?i = foldl ?row (?row (foldl ?row fb as) py0) bs ?i"
    by (simp add: ys)
  also have "\<dots> = ?row (foldl ?row fb as) py0 ?i"
    using assms(5) nbs ys by (intro rows_other) auto
  also have "\<dots> = pixel_value width height v1 v2 v3 px0 py0 (foldl ?row fb as ?i)"
    using assms(1,3,5) assms(2) by (intro row_at) auto
  finally show ?thesis by (simp add: before)
qed

lemma rasterize_triangle_folds:
  "rasterize_triangle fb width height v1 v2 v3 =
     foldl (\<lambda>fb py. foldl (rasterize_pixel width height v1 v2 v3 py) fb
                        [raster_start_x v1 v2 v3..raster_end_x width v1 v2 v3])
       fb [raster_start_y v1 v2 v3..raster_end_y height v1 v2 v3]"
  unfolding rasterize_triangle_def rasterize_row_def[abs_def] ..

lemma rasterize_triangle_other:
  assumes "\<And>px py. raster_start_x v1 v2 v3 \<le> px \<Longrightarrow> px \<le> raster_end_x width v1 v2 v3 \<Longrightarrow>
             raster_start_y v1 v2 v3 \<le> py \<Longrightarrow> py \<le> raster_end_y height v1 v2 v3 \<Longrightarrow>
             unat (pixel_index width px py) \<noteq> idx"
  shows "rasterize_triangle fb width height v1 v2 v3 idx = fb idx"
  unfolding rasterize_triangle_folds
  using assms by (intro rows_other) auto

lemma rasterize_triangle_at:
  assumes "raster_start_x v1 v2 v3 \<le> px0" "px0 \<le> raster_end_x width v1 v2 v3"
    and "raster_start_y v1 v2 v3 \<le> py0" "py0 \<le> raster_end_y height v1 v2 v3"
    and "\<And>px py. raster_start_x v1 v2 v3 \<le> px \<Longrightarrow> px \<le> raster_end_x width v1 v2 v3 \<Longrightarrow>
             raster_start_y v1 v2 v3 \<le> py \<Longrightarrow> py \<le> raster_end_y height v1 v2 v3 \<Longrightarrow>
             (px, py) \<noteq> (px0, py0) \<Longrightarrow>
             unat (pixel_index width px py) \<noteq> unat (pixel_index width px0 py0)"
  shows "rasterize_triangle fb width height v1 v2 v3 (unat (pixel_index width px0 py0))
         = pixel_value width height v1 v2 v3 px0 py0 (fb (unat (pixel_index width px0 py0)))"
  unfolding rasterize_triangle_folds
  using assms by (intro rows_at) auto

lemma tri_box:
  "raster_start_x tri_a tri_b tri_c = 200"
  "raster_end_x 800 tri_a tri_b tri_c = 600"
  "raster_start_y tri_a tri_b tri_c = 150"
  "raster_end_y 600 tri_a tri_b tri_c = 450"
  by code_simp+

lemma tri_not_degenerate:
  "\<not> f32_le (f32_abs (barycentric_denom
       (v3x (position tri_a)) (v3y (position tri_a))
       (v3x (position tri_b)) (v3y (position tri_b))
       (v3x (position tri_c)) (v3y (position tri_c)))) 0x358637BD"
  by code_simp

lemma tri_centroid_weights:
  "barycentric_weights (f32_from_i32 400) (f32_from_i32 350)
     (v3x (position tri_a)) (v3y (position tri_a))
     (v3x (position tri_b)) (v3y (position tri_b))
     (v3x (position tri_c)) (v3y (position tri_c))
   = (0x3EAAAAAA, 0x3EAAAAAA, 0x3EAAAAAC)"
  by code_simp

lemma tri_centroid_weights_pass:
  "f32_ge 0x3EAAAAAA F32_ZERO" "f32_ge 0x3EAAAAAC F32_ZERO"
  by code_simp+

lemma tri_centroid_inside:
  "point_in_triangle_barycentric (f32_from_i32 400) (f32_from_i32 350)
     (v3x (position tri_a)) (v3y (position tri_a))
     (v3x (position tri_b)) (v3y (position tri_b))
     (v3x (position tri_c)) (v3y (position tri_c))
   = Some (0x3EAAAAAA, 0x3EAAAAAA, 0x3EAAAAAC)"
  unfolding point_in_triangle_barycentric_def
  by (simp only: tri_not_degenerate tri_centroid_weights tri_centroid_weights_pass
        if_False if_True prod.case simp_thms)

lemma tri_centroid_color:
  "pack_color (interpolate_triangle_color (color tri_a) (color tri_b) (color tri_c)
       0x3EAAAAAA 0x3EAAAAAA 0x3EAAAAAC) = 0xFF555454"
  by code_simp

lemma tri_centroid_pixel: "triangle_pixel tri_a tri_b tri_c 400 350 = Some 0xFF555454"
  unfolding triangle_pixel_def
  by (simp only: tri_centroid_inside option.case prod.case tri_centroid_color)

lemma unat_word_of_int_32:
  "0 \<le> k \<Longrightarrow> k < 2 ^ 32 \<Longrightarrow> unat (word_of_int k :: u32) = nat k"
  by (simp add: unat_eq_nat_uint uint_word_of_int_eq take_bit_int_eq_self)

lemma pixel_index_of_int: "pixel_index w px py = word_of_int (py * uint w + px)"
  unfolding pixel_index_def by (simp only: of_int_add of_int_mult word_of_int_uint)

lemma pixel_index_unat:
  assumes "0 \<le> px" "0 \<le> py" "py * uint w + px < 2 ^ 32"
  shows "unat (pixel_index w px py) = nat (py * uint w + px)"
proof -
  have "0 \<le> py * uint w + px" using assms by simp
  then show ?thesis
    using assms(3) by (simp only: pixel_index_of_int unat_word_of_int_32)
qed

lemma pixel_index_800_nat:
  assumes "0 \<le> px" "px < 800" "0 \<le> py" "py < 600"
  shows "unat (pixel_index 800 px py) = nat (py * 800 + px)"
  using pixel_index_unat[of px py 800] assms by simp

lemma f32_ge_zero_iff: "f32_ge a F32_ZERO \<longleftrightarrow> float_lt F32_ZERO a \<or> a = F32_ZERO"
  by (simp add: f32_ge_def f32_gt_def f32_eq_def)

lemma float_key_zero: "float_key F32_ZERO = 0"
  by code_simp

lemma negative_not_ge_zero: "float_lt a F32_ZERO \<Longrightarrow> \<not> f32_ge a F32_ZERO"
  by (auto simp: f32_ge_zero_iff float_lt_def float_key_zero)

lemma tri_centroid_written:
  "rasterize_triangle fb 800 600 tri_a tri_b tri_c 280400 = 0xFF555454"
proof -
  have idx: "unat (pixel_index 800 400 350) = 280400"
    using pixel_index_800_nat[of 400 350] by simp
  have guard: "pixel_index 800 400 350 < 480000"
    by code_simp
  have "rasterize_triangle fb 800 600 tri_a tri_b tri_c (unat (pixel_index 800 400 350))
        = pixel_value 800 600 tri_a tri_b tri_c 400 350 (fb (unat (pixel_index 800 400 350)))"
  proof (rule rasterize_triangle_at)
    fix px py
    assume "raster_start_x tri_a tri_b tri_c \<le> px" "px \<le> raster_end_x 800 tri_a tri_b tri_c"
      "raster_start_y tri_a tri_b tri_c \<le> py" "py \<le> raster_end_y 600 tri_a tri_b tri_c"
      "(px, py) \<noteq> (400, 350)"
    then have b: "200 \<le> px" "px \<le> 600" "150 \<le> py" "py \<le> 450" and ne: "px \<noteq> 400 \<or> py \<noteq> 350"
      by (simp_all add: tri_box)
    have "unat (pixel_index 800 px py) = nat (py * 800 + px)"
      using b by (intro pixel_index_800_nat) auto
    moreover have "py * 800 + px \<noteq> 280400"
    proof -
      consider "py \<le> 349" | "py = 350" | "351 \<le> py" by linarith
      then show ?thesis using b ne by cases linarith+
    qed
    ultimately show "unat (pixel_index 800 px py) \<noteq> unat (pixel_index 800 400 350)"
      using b idx by auto
  qed (simp_all add: tri_box)
  then show ?thesis
    by (simp add: idx pixel_value_def tri_centroid_pixel guard)
qed

lemma tri_outside_box_untouched:
  assumes "0 \<le> px" "px < 800" "0 \<le> py" "py < 600"
    and "px < 200 \<or> 600 < px \<or> py < 150 \<or> 450 < py"
  shows "rasterize_triangle fb 800 600 tri_a tri_b tri_c (nat (py * 800 + px))
           = fb (nat (py * 800 + px))"
proof (rule rasterize_triangle_other)
  fix qx qy
  assume "raster_start_x tri_a tri_b tri_c \<le> qx" "qx \<le> raster_end_x 800 tri_a tri_b tri_c"
      "raster_start_y tri_a tri_b tri_c \<le> qy" "qy \<le> raster_end_y 600 tri_a tri_b tri_c"
  then have b: "200 \<le> qx" "qx \<le> 600" "150 \<le> qy" "qy \<le> 450"
    by (simp_all add: tri_box)
  have "unat (pixel_index 800 qx qy) = nat (qy * 800 + qx)"
    using b by (intro pixel_index_800_nat) auto
  moreover have "qy * 800 + qx \<noteq> py * 800 + px"
  proof -
    consider "qy + 1 \<le> py" | "qy = py" | "py + 1 \<le> qy" by linarith
    then show ?thesis using b assms by cases linarith+
  qed
  ultimately show "unat (pixel_index 800 qx qy) \<noteq> nat (py * 800 + px)"
    using b assms by auto
qed

lemma triangle_pixel_covered:
  assumes "\<not> f32_le (f32_abs (barycentric_denom
               (v3x (position v1)) (v3y (position v1)) (v3x (position v2)) (v3y (position v2))
               (v3x (position v3)) (v3y (position v3)))) 0x358637BD"
    and "barycentric_weights (f32_from_i32 px) (f32_from_i32 py)
               (v3x (position v1)) (v3y (position v1)) (v3x (position v2)) (v3y (position v2))
               (v3x (position v3)) (v3y (position v3)) = (u, v, w)"
    and "float_lt F32_ZERO u \<or> u = F32_ZERO"
    and "float_lt F32_ZERO v \<or> v = F32_ZERO"
    and "float_lt F32_ZERO w \<or> w = F32_ZERO"
  shows "triangle_pixel v1 v2 v3 px py =
           Some (pack_color (interpolate_triangle_color (color v1) (color v2) (color v3) u v w))"
  using assms
  by (simp add: triangle_pixel_def point_in_triangle_barycentric_def f32_ge_zero_iff)

lemma triangle_pixel_not_covered:
  assumes "barycentric_weights (f32_from_i32 px) (f32_from_i32 py)
               (v3x (position v1)) (v3y (position v1)) (v3x (position v2)) (v3y (position v2))
               (v3x (position v3)) (v3y (position v3)) = (u, v, w)"
    and "float_lt u F32_ZERO \<or> float_lt v F32_ZERO \<or> float_lt w F32_ZERO"
  shows "triangle_pixel v1 v2 v3 px py = None"
  using assms negative_not_ge_zero
  by (auto simp: triangle_pixel_def point_in_triangle_barycentric_def)

section \<open>Properties of the pipeline\<close>

text \<open>
  Claim C1.  The claim: a vertex whose clip-space \<open>w\<close> is not positive is marked invalid.
  The frustum test compares \<^verbatim>\<open>w_abs = f32_abs(clip_space.w)\<close> with zero and with
  \<open>|x|\<close> and \<open>|y|\<close>, not \<open>w\<close> itself.  With the matrix \<open>flip_w_matrix\<close> the vertex at the
  origin has the clip-space coordinate \<open>(0, 0, 0, -1)\<close>: its \<open>w\<close> is negative, and the
  transformed vertex is valid.
\<close>

theorem negative_clip_w_accepted:
  "v4w (vertex_clip_space (ndc_vertex F32_ZERO F32_ZERO c) flip_w_matrix) = 0xBF800000 \<and>
   f32_lt (v4w (vertex_clip_space (ndc_vertex F32_ZERO F32_ZERO c) flip_w_matrix)) F32_ZERO \<and>
   is_valid (transform_vertex_to_screen (ndc_vertex F32_ZERO F32_ZERO c) flip_w_matrix 800 600)"
  by code_simp

lemma float_lt_irrefl: "\<not> float_lt a a"
  by (simp add: float_lt_def)

lemma zero_clip_w_rejected:
  assumes "f32_abs (v4w (vertex_clip_space vertex mvp)) = F32_ZERO"
  shows "\<not> is_valid (transform_vertex_to_screen vertex mvp screen_width screen_height)"
  using assms
  by (simp add: transform_vertex_to_screen_def inside_frustum_def Let_def f32_gt_def float_lt_irrefl)

text \<open>
  Claim C7.  The vertex at the origin (of any colour), the identity matrix and a viewport of
  800 by 600 give the valid transformed vertex at the screen position \<open>(400.0, 300.0)\<close>
  with depth \<open>+0.0\<close>; and every vertex that passes the frustum test gets the position
  \<open>((ndc_x * 0.5 + 0.5) * width, (1 - (ndc_y * 0.5 + 0.5)) * height, ndc_z)\<close>, where the
  normalized coordinates are the clip-space coordinates times \<open>1 / w\<close>.
\<close>

theorem transform_origin_identity:
  "transform_vertex_to_screen (ndc_vertex F32_ZERO F32_ZERO c) mat4f_identity 800 600 =
     \<lparr> position = vec3f_create (f32_from_u32 400) (f32_from_u32 300) F32_ZERO,
       color = c, is_valid = True \<rparr> \<and>
   (\<forall>vertex mvp width height.
      is_valid (transform_vertex_to_screen vertex mvp width height) \<longrightarrow>
      (let clip_space = vertex_clip_space vertex mvp;
           w_inv = f32_div F32_ONE (v4w clip_space);
           ndc_x = f32_mul (v4x clip_space) w_inv;
           ndc_y = f32_mul (v4y clip_space) w_inv;
           ndc_z = f32_mul (v4z clip_space) w_inv
       in position (transform_vertex_to_screen vertex mvp width height) =
            vec3f_create
              (f32_mul (f32_add (f32_mul ndc_x F32_HALF) F32_HALF) (f32_from_u32 width))
              (f32_mul (f32_sub F32_ONE (f32_add (f32_mul ndc_y F32_HALF) F32_HALF))
                 (f32_from_u32 height))
              ndc_z))"
proof (intro conjI allI impI)
  show "transform_vertex_to_screen (ndc_vertex F32_ZERO F32_ZERO c) mat4f_identity 800 600 =
     \<lparr> position = vec3f_create (f32_from_u32 400) (f32_from_u32 300) F32_ZERO,
       color = c, is_valid = True \<rparr>"
    by code_simp
next
  fix vertex mvp width height
  assume "is_valid (transform_vertex_to_screen vertex mvp width height)"
  then have "inside_frustum (vertex_clip_space vertex mvp)"
    by (auto simp: transform_vertex_to_screen_def Let_def split: if_splits)
  then show "let clip_space = vertex_clip_space vertex mvp;
           w_inv = f32_div F32_ONE (v4w clip_space);
           ndc_x = f32_mul (v4x clip_space) w_inv;
           ndc_y = f32_mul (v4y clip_space) w_inv;
           ndc_z = f32_mul (v4z clip_space) w_inv
       in position (transform_vertex_to_screen vertex mvp width height) =
            vec3f_create
              (f32_mul (f32_add (f32_mul ndc_x F32_HALF) F32_HALF) (f32_from_u32 width))
              (f32_mul (f32_sub F32_ONE (f32_add (f32_mul ndc_y F32_HALF) F32_HALF))
                 (f32_from_u32 height))
              ndc_z"
    by (simp add: transform_vertex_to_screen_def Let_def)
qed

text \<open>
  The statement of C7 for a red vertex, with the floats written as words:
  \<open>0x43C80000\<close> is 400.0 and \<open>0x43960000\<close> is 300.0.
\<close>

theorem transform_origin_identity_witness:
  "position (transform_vertex_to_screen (ndc_vertex F32_ZERO F32_ZERO RGB_RED) mat4f_identity 800 600)
     = vec3f_create 0x43C80000 0x43960000 0"
proof -
  have "transform_vertex_to_screen (ndc_vertex F32_ZERO F32_ZERO RGB_RED) mat4f_identity 800 600 =
     \<lparr> position = vec3f_create (f32_from_u32 400) (f32_from_u32 300) F32_ZERO,
       color = RGB_RED, is_valid = True \<rparr>"
    using transform_origin_identity[of RGB_RED] by blast
  moreover have "f32_from_u32 400 = 0x43C80000" "f32_from_u32 300 = 0x43960000" "F32_ZERO = 0"
    by code_simp+
  ultimately show ?thesis by simp
qed

lemma render_triangles_single:
  "render_triangles fb width height mvp cull vertices 3 0 =
     render_triangle fb width height mvp cull (vertices 0) (vertices 1) (vertices 2)"
proof -
  have "render_triangles fb width height mvp cull vertices 3 0 =
      render_triangles
        (render_triangle fb width height mvp cull (vertices 0) (vertices 1) (vertices 2))
        width height mvp cull vertices 3 3"
    by (subst render_triangles.simps) (simp add: numeral_2_eq_2)
  also have "\<dots> = render_triangle fb width height mvp cull (vertices 0) (vertices 1) (vertices 2)"
    by (subst render_triangles.simps) simp
  finally show ?thesis .
qed

text \<open>
  Claim C6.  For a triangle whose three vertices pass the frustum test and whose cross
  product \<^verbatim>\<open>cross_product_z\<close> of the two screen-space edges from the first vertex, as
  \<^verbatim>\<open>is_triangle_back_facing\<close> computes it, is less than zero: with face culling on, the
  iteration of the triangle loop (and the loop over a vertex array of just this triangle)
  leaves the framebuffer as it was; with face culling off, it hands the three transformed
  vertices to \<^verbatim>\<open>rasterize_triangle\<close>.
\<close>

theorem back_face_culling:
  assumes "is_valid (transform_vertex_to_screen v1 mvp width height)"
    and "is_valid (transform_vertex_to_screen v2 mvp width height)"
    and "is_valid (transform_vertex_to_screen v3 mvp width height)"
    and "f32_lt (triangle_cross_product_z
                   (transform_vertex_to_screen v1 mvp width height)
                   (transform_vertex_to_screen v2 mvp width height)
                   (transform_vertex_to_screen v3 mvp width height)) F32_ZERO"
    and "vertices 0 = v1" and "vertices 1 = v2" and "vertices 2 = v3"
  shows "render_triangle fb width height mvp True v1 v2 v3 = fb \<and>
         render_triangles fb width height mvp True vertices 3 0 = fb \<and>
         render_triangle fb width height mvp False v1 v2 v3 =
           rasterize_triangle fb width height
             (transform_vertex_to_screen v1 mvp width height)
             (transform_vertex_to_screen v2 mvp width height)
             (transform_vertex_to_screen v3 mvp width height) \<and>
         render_triangles fb width height mvp False vertices 3 0 =
           rasterize_triangle fb width height
             (transform_vertex_to_screen v1 mvp width height)
             (transform_vertex_to_screen v2 mvp width height)
             (transform_vertex_to_screen v3 mvp width height)"
  using assms
  by (simp add: render_triangles_single render_triangle_def Let_def is_triangle_back_facing_def)

text \<open>
  Claim C5, as stated: the centroid pixel \<open>(400, 350)\<close> gets an equal-weighted blend of
  red, green and blue.  The weights that the rasterizer computes there are not equal:
  \<open>u = v = 0x3EAAAAAA\<close> and \<open>w = 0x3EAAAAAC\<close> (two units in the last place more), and
  the pixel written over a cleared framebuffer is \<open>0xFF555454\<close>, whose red channel (85)
  differs from the green and blue ones (84).
\<close>

theorem centroid_blend_counterexample:
  "point_in_triangle_barycentric (f32_from_i32 400) (f32_from_i32 350)
     (v3x (position tri_a)) (v3y (position tri_a))
     (v3x (position tri_b)) (v3y (position tri_b))
     (v3x (position tri_c)) (v3y (position tri_c))
     = Some (0x3EAAAAAA, 0x3EAAAAAA, 0x3EAAAAAC) \<and>
   (0x3EAAAAAA :: f32) \<noteq> 0x3EAAAAAC \<and>
   rasterize_triangle (\<lambda>i. 0xFF111111) 800 600 tri_a tri_b tri_c 280400 = 0xFF555454 \<and>
   drop_bit 16 (0xFF555454 :: u32) AND 0xFF \<noteq> drop_bit 8 (0xFF555454 :: u32) AND 0xFF"
  using tri_centroid_inside tri_centroid_written[of "\<lambda>i. 0xFF111111"] by simp

text \<open>
  Claim C5, amended.  Rasterizing the triangle \<open>(400, 150)\<close> red, \<open>(200, 450)\<close> green,
  \<open>(600, 450)\<close> blue on a framebuffer of 800 by 600 leaves \<open>0xFF555454\<close> (red 85, green
  84, blue 84) in the centroid pixel, whose index is \<open>350 * 800 + 400 = 280400\<close>, and
  leaves every pixel of the screen outside the bounding box \<open>[200, 600] \<times> [150, 450]\<close> as
  it was.  For every triangle and pixel: when the triangle is not degenerate and each of
  the three weights is greater than zero or is \<open>+0.0\<close>, the pixel is covered and gets the
  packed blend \<open>u * C3 + v * C2 + w * C1\<close>; when some weight is less than zero, the pixel is
  not covered.
\<close>

theorem rasterizer_coverage:
  "rasterize_triangle fb 800 600 tri_a tri_b tri_c 280400 = 0xFF555454 \<and>
   (\<forall>px py. 0 \<le> px \<and> px < 800 \<and> 0 \<le> py \<and> py < 600 \<and>
            (px < 200 \<or> 600 < px \<or> py < 150 \<or> 450 < py) \<longrightarrow>
      rasterize_triangle fb 800 600 tri_a tri_b tri_c (nat (py * 800 + px))
        = fb (nat (py * 800 + px))) \<and>
   (\<forall>v1 v2 v3 px py u v w.
      barycentric_weights (f32_from_i32 px) (f32_from_i32 py)
        (v3x (position v1)) (v3y (position v1)) (v3x (position v2)) (v3y (position v2))
        (v3x (position v3)) (v3y (position v3)) = (u, v, w) \<longrightarrow>
      (\<not> f32_le (f32_abs (barycentric_denom
              (v3x (position v1)) (v3y (position v1)) (v3x (position v2)) (v3y (position v2))
              (v3x (position v3)) (v3y (position v3)))) 0x358637BD \<and>
       (float_lt F32_ZERO u \<or> u = F32_ZERO) \<and>
       (float_lt F32_ZERO v \<or> v = F32_ZERO) \<and>
       (float_lt F32_ZERO w \<or> w = F32_ZERO) \<longrightarrow>
         triangle_pixel v1 v2 v3 px py =
           Some (pack_color (interpolate_triangle_color (color v1) (color v2) (color v3) u v w))) \<and>
      (float_lt u F32_ZERO \<or> float_lt v F32_ZERO \<or> float_lt w F32_ZERO \<longrightarrow>
         triangle_pixel v1 v2 v3 px py = None))"
proof (intro conjI allI impI)
  show "rasterize_triangle fb 800 600 tri_a tri_b tri_c 280400 = 0xFF555454"
    by (rule tri_centroid_written)
next
  fix px py :: int
  assume "0 \<le> px \<and> px < 800 \<and> 0 \<le> py \<and> py < 600 \<and>
            (px < 200 \<or> 600 < px \<or> py < 150 \<or> 450 < py)"
  then show "rasterize_triangle fb 800 600 tri_a tri_b tri_c (nat (py * 800 + px))
        = fb (nat (py * 800 + px))"
    by (intro tri_outside_box_untouched) auto
next
  fix v1 v2 v3 :: TransformedVertex and px py :: int and u v w :: f32
  assume "barycentric_weights (f32_from_i32 px) (f32_from_i32 py)
        (v3x (position v1)) (v3y (position v1)) (v3x (position v2)) (v3y (position v2))
        (v3x (position v3)) (v3y (position v3)) = (u, v, w)"
    and "\<not> f32_le (f32_abs (barycentric_denom
              (v3x (position v1)) (v3y (position v1)) (v3x (position v2)) (v3y (position v2))
              (v3x (position v3)) (v3y (position v3)))) 0x358637BD \<and>
       (float_lt F32_ZERO u \<or> u = F32_ZERO) \<and>
       (float_lt F32_ZERO v \<or> v = F32_ZERO) \<and>
       (float_lt F32_ZERO w \<or> w = F32_ZERO)"
  then show "triangle_pixel v1 v2 v3 px py =
           Some (pack_color (interpolate_triangle_color (color v1) (color v2) (color v3) u v w))"
    by (intro triangle_pixel_covered) auto
next
  fix v1 v2 v3 :: TransformedVertex and px py :: int and u v w :: f32
  assume "barycentric_weights (f32_from_i32 px) (f32_from_i32 py)
        (v3x (position v1)) (v3y (position v1)) (v3x (position v2)) (v3y (position v2))
        (v3x (position v3)) (v3y (position v3)) = (u, v, w)"
    and "float_lt u F32_ZERO \<or> float_lt v F32_ZERO \<or> float_lt w F32_ZERO"
  then show "triangle_pixel v1 v2 v3 px py = None"
    by (rule triangle_pixel_not_covered)
qed

text \<open>
  The amended statement at concrete inputs: the pixel \<open>(100, 100)\<close> outside the bounding
  box, and the centroid pixel with its three positive weights.
\<close>

theorem rasterizer_coverage_witness:
  "rasterize_triangle (\<lambda>i. 0xFF111111) 800 600 tri_a tri_b tri_c (nat (100 * 800 + 100)) = 0xFF111111 \<and>
   triangle_pixel tri_a tri_b tri_c 400 350 =
     Some (pack_color (interpolate_triangle_color (color tri_a) (color tri_b) (color tri_c)
             0x3EAAAAAA 0x3EAAAAAA 0x3EAAAAAC))"
proof -
  note cov = rasterizer_coverage[of "\<lambda>i. 0xFF111111"]
  have pos: "float_lt F32_ZERO 0x3EAAAAAA" "float_lt F32_ZERO 0x3EAAAAAC"
    by code_simp+
  have outside: "(0::int) \<le> 100 \<and> (100::int) < 800 \<and> (0::int) \<le> 100 \<and> (100::int) < 600 \<and>
            ((100::int) < 200 \<or> 600 < (100::int) \<or> (100::int) < 150 \<or> 450 < (100::int))"
    by simp
  have a: "rasterize_triangle (\<lambda>i. 0xFF111111) 800 600 tri_a tri_b tri_c (nat (100 * 800 + 100))
             = 0xFF111111"
    using cov[THEN conjunct2, THEN conjunct1, rule_format, OF outside] .
  have b: "triangle_pixel tri_a tri_b tri_c 400 350 =
     Some (pack_color (interpolate_triangle_color (color tri_a) (color tri_b) (color tri_c)
             0x3EAAAAAA 0x3EAAAAAA 0x3EAAAAAC))"
    using cov[THEN conjunct2, THEN conjunct2, rule_format, OF tri_centroid_weights, THEN conjunct1]
      tri_not_degenerate pos by blast
  show ?thesis using a b by (rule conjI)
qed

lemma cw_transformed:
  "transform_vertex_to_screen cw_v1 mat4f_identity 2 2 = cw_t1"
  "transform_vertex_to_screen cw_v2 mat4f_identity 2 2 = cw_t2"
  "transform_vertex_to_screen cw_v3 mat4f_identity 2 2 = cw_t3"
  by code_simp+

lemma cw_clockwise: "f32_lt (triangle_cross_product_z cw_t1 cw_t2 cw_t3) F32_ZERO"
  by code_simp

lemma cw_box:
  "raster_start_x cw_t1 cw_t2 cw_t3 = 0"
  "raster_end_x 2 cw_t1 cw_t2 cw_t3 = 1"
  "raster_start_y cw_t1 cw_t2 cw_t3 = 0"
  "raster_end_y 2 cw_t1 cw_t2 cw_t3 = 1"
  by code_simp+

lemma cw_not_degenerate:
  "\<not> f32_le (f32_abs (barycentric_denom
       (v3x (position cw_t1)) (v3y (position cw_t1))
       (v3x (position cw_t2)) (v3y (position cw_t2))
       (v3x (position cw_t3)) (v3y (position cw_t3)))) 0x358637BD"
  by code_simp

lemma cw_corner_weights:
  "barycentric_weights (f32_from_i32 0) (f32_from_i32 0)
     (v3x (position cw_t1)) (v3y (position cw_t1))
     (v3x (position cw_t2)) (v3y (position cw_t2))
     (v3x (position cw_t3)) (v3y (position cw_t3))
   = (0, 0, 0x3F800000)"
  by code_simp

lemma cw_corner_color:
  "pack_color (interpolate_triangle_color (color cw_t1) (color cw_t2) (color cw_t3)
       0 0 0x3F800000) = 0xFFFF0000"
  by code_simp

lemma cw_corner_pixel: "triangle_pixel cw_t1 cw_t2 cw_t3 0 0 = Some 0xFFFF0000"
proof -
  have z: "float_lt F32_ZERO 0 \<or> (0 :: f32) = F32_ZERO"
    "float_lt F32_ZERO 0x3F800000 \<or> (0x3F800000 :: f32) = F32_ZERO"
    by code_simp+
  show ?thesis
    using triangle_pixel_covered[OF cw_not_degenerate cw_corner_weights z(1) z(1) z(2)]
    by (simp only: cw_corner_color)
qed

lemma cw_corner_written: "rasterize_triangle fb 2 2 cw_t1 cw_t2 cw_t3 0 = 0xFFFF0000"
proof -
  have idx: "unat (pixel_index 2 0 0) = 0" by code_simp
  have guard: "pixel_index 2 0 0 < 4" by code_simp
  have "rasterize_triangle fb 2 2 cw_t1 cw_t2 cw_t3 (unat (pixel_index 2 0 0))
        = pixel_value 2 2 cw_t1 cw_t2 cw_t3 0 0 (fb (unat (pixel_index 2 0 0)))"
  proof (rule rasterize_triangle_at)
    fix px py
    assume "raster_start_x cw_t1 cw_t2 cw_t3 \<le> px" "px \<le> raster_end_x 2 cw_t1 cw_t2 cw_t3"
      "raster_start_y cw_t1 cw_t2 cw_t3 \<le> py" "py \<le> raster_end_y 2 cw_t1 cw_t2 cw_t3"
      "(px, py) \<noteq> (0, 0)"
    then have b: "0 \<le> px" "px \<le> 1" "0 \<le> py" "py \<le> 1" and ne: "px \<noteq> 0 \<or> py \<noteq> 0"
      by (simp_all add: cw_box)
    have "unat (pixel_index 2 px py) = nat (py * uint (2 :: u32) + px)"
      using b by (intro pixel_index_unat) auto
    then show "unat (pixel_index 2 px py) \<noteq> unat (pixel_index 2 0 0)"
      using b ne idx by auto
  qed (simp_all add: cw_box)
  then show ?thesis
    by (simp add: idx pixel_value_def cw_corner_pixel guard)
qed

text \<open>
  The statement of C6 on the red triangle with the screen positions \<open>(0, 0)\<close>, \<open>(0, 2)\<close>,
  \<open>(2, 0)\<close> (cross product \<open>-4\<close>) and a zeroed framebuffer of 2 by 2 pixels: culled when
  culling is on, and pixel 0 red when culling is off.
\<close>

theorem back_face_culling_witness:
  "render_triangle (\<lambda>i. 0) 2 2 mat4f_identity True cw_v1 cw_v2 cw_v3 = (\<lambda>i. 0) \<and>
   render_triangles (\<lambda>i. 0) 2 2 mat4f_identity True (\<lambda>i. [cw_v1, cw_v2, cw_v3] ! i) 3 0 = (\<lambda>i. 0) \<and>
   render_triangle (\<lambda>i. 0) 2 2 mat4f_identity False cw_v1 cw_v2 cw_v3 0 = 0xFFFF0000 \<and>
   render_triangles (\<lambda>i. 0) 2 2 mat4f_identity False (\<lambda>i. [cw_v1, cw_v2, cw_v3] ! i) 3 0 0
     = 0xFFFF0000"
proof -
  have valid: "is_valid (transform_vertex_to_screen cw_v1 mat4f_identity 2 2)"
    "is_valid (transform_vertex_to_screen cw_v2 mat4f_identity 2 2)"
    "is_valid (transform_vertex_to_screen cw_v3 mat4f_identity 2 2)"
    by (simp_all add: cw_transformed cw_t1_def cw_t2_def cw_t3_def)
  have cross: "f32_lt (triangle_cross_product_z
                   (transform_vertex_to_screen cw_v1 mat4f_identity 2 2)
                   (transform_vertex_to_screen cw_v2 mat4f_identity 2 2)
                   (transform_vertex_to_screen cw_v3 mat4f_identity 2 2)) F32_ZERO"
    by (simp only: cw_transformed cw_clockwise)
  have vs: "(\<lambda>i. [cw_v1, cw_v2, cw_v3] ! i) 0 = cw_v1" "(\<lambda>i. [cw_v1, cw_v2, cw_v3] ! i) 1 = cw_v2"
    "(\<lambda>i. [cw_v1, cw_v2, cw_v3] ! i) 2 = cw_v3"
    by simp_all
  show ?thesis
    using back_face_culling[OF valid cross vs, of "\<lambda>i. 0"]
    by (simp only: cw_transformed cw_corner_written simp_thms)
qed

section \<open>Properties of the depth-tested rasterizer\<close>

lemma depth_pixel_other:
  "unat (pixel_index width px py) \<noteq> i \<Longrightarrow> pixel_at (depth_pixel width t py s px) i = pixel_at s i"
  by (simp add: depth_pixel_def pixel_at_def Let_def split: option.splits)

lemma depth_pixel_at:
  "pixel_at (depth_pixel width t py s px) (unat (pixel_index width px py)) =
     depth_test (depth_fragment t px py) (pixel_at s (unat (pixel_index width px py)))"
  by (simp add: depth_pixel_def pixel_at_def depth_test_def Let_def split: option.splits)

lemma depth_row_other:
  "(\<And>px. px \<in> set xs \<Longrightarrow> unat (pixel_index width px py) \<noteq> i) \<Longrightarrow>
   pixel_at (foldl (depth_pixel width t py) s xs) i = pixel_at s i"
proof (induction xs arbitrary: s)
  case Nil
  then show ?case by simp
next
  case (Cons a xs)
  have "pixel_at (foldl (depth_pixel width t py) (depth_pixel width t py s a) xs) i
        = pixel_at (depth_pixel width t py s a) i"
    using Cons.prems by (intro Cons.IH) simp
  also have "\<dots> = pixel_at s i"
    using Cons.prems by (intro depth_pixel_other) simp
  finally show ?case by simp
qed

lemma depth_row_at:
  assumes "px0 \<in> set xs" and "distinct xs"
    and "\<And>px. px \<in> set xs \<Longrightarrow> px \<noteq> px0 \<Longrightarrow>
           unat (pixel_index width px py) \<noteq> unat (pixel_index width px0 py)"
  shows "pixel_at (foldl (depth_pixel width t py) s xs) (unat (pixel_index width px0 py))
         = depth_test (depth_fragment t px0 py) (pixel_at s (unat (pixel_index width px0 py)))"
proof -
  let ?f = "depth_pixel width t py"
  let ?i = "unat (pixel_index width px0 py)"
  obtain as bs where xs: "xs = as @ px0 # bs"
    using assms(1) by (auto simp: in_set_conv_decomp)
  have nas: "px0 \<notin> set as" and nbs: "px0 \<notin> set bs"
    using assms(2) xs by auto
  have before: "pixel_at (foldl ?f s as) ?i = pixel_at s ?i"
    using assms(3) nas xs by (intro depth_row_other) auto
  have "pixel_at (foldl ?f s xs) ?i = pixel_at (foldl ?f (?f (foldl ?f s as) px0) bs) ?i"
    by (simp add: xs)
  also have "\<dots> = pixel_at (?f (foldl ?f s as) px0) ?i"
    using assms(3) nbs xs by (intro depth_row_other) auto
  also have "\<dots> = depth_test (depth_fragment t px0 py) (pixel_at (foldl ?f s as) ?i)"
    by (rule depth_pixel_at)
  finally show ?thesis by (simp add: before)
qed

lemma depth_rows_other:
  "(\<And>px py. px \<in> set xs \<Longrightarrow> py \<in> set ys \<Longrightarrow> unat (pixel_index width px py) \<noteq> i) \<Longrightarrow>
   pixel_at (foldl (\<lambda>s py. foldl (depth_pixel width t py) s xs) s ys) i = pixel_at s i"
proof (induction ys arbitrary: s)
  case Nil
  then show ?case by simp
next
  case (Cons a ys)
  let ?row = "\<lambda>s py. foldl (depth_pixel width t py) s xs"
  have "pixel_at (foldl ?row (?row s a) ys) i = pixel_at (?row s a) i"
    using Cons.prems by (intro Cons.IH) simp
  also have "\<dots> = pixel_at s i"
    using Cons.prems by (intro depth_row_other) simp
  finally show ?case by simp
qed

lemma depth_rows_at:
  assumes "px0 \<in> set xs" and "py0 \<in> set ys" and "distinct xs" and "distinct ys"
    and "\<And>px py. px \<in> set xs \<Longrightarrow> py \<in> set ys \<Longrightarrow> (px, py) \<noteq> (px0, py0) \<Longrightarrow>
           unat (pixel_index width px py) \<noteq> unat (pixel_index width px0 py0)"
  shows "pixel_at (foldl (\<lambda>s py. foldl (depth_pixel width t py) s xs) s ys)
           (unat (pixel_index width px0 py0))
         = depth_test (depth_fragment t px0 py0) (pixel_at s (unat (pixel_index width px0 py0)))"
proof -
  let ?row = "\<lambda>s py. foldl (depth_pixel width t py) s xs"
  let ?i = "unat (pixel_index width px0 py0)"
  obtain as bs where ys: "ys = as @ py0 # bs"
    using assms(2) by (auto simp: in_set_conv_decomp)
  have nas: "py0 \<notin> set as" and nbs: "py0 \<notin> set bs"
    using assms(4) ys by auto
  have before: "pixel_at (foldl ?row s as) ?i = pixel_at s ?i"
    using assms(5) nas ys by (intro depth_rows_other) auto
  have "pixel_at (foldl ?row s ys) ?i = pixel_at (foldl ?row (?row (foldl ?row s as) py0) bs) ?i"
    by (simp add: ys)
  also have "\<dots> = pixel_at (?row (foldl ?row s as) py0) ?i"
    using assms(5) nbs ys by (intro depth_rows_other) auto
  also have "\<dots> = depth_test (depth_fragment t px0 py0) (pixel_at (foldl ?row s as) ?i)"
    using assms(1,3,5) assms(2) by (intro depth_row_at) auto
  finally show ?thesis by (simp add: before)
qed

lemma pixel_index_on_screen:
  assumes "0 \<le> px" "px < uint width" "0 \<le> py" "py < uint height"
    and "uint width * uint height \<le> 2 ^ 32"
  shows "unat (pixel_index width px py) = nat (py * uint width + px)"
proof -
  have "py * uint width \<le> (uint height - 1) * uint width"
    using assms by (intro mult_right_mono) auto
  then have "py * uint width + px < uint height * uint width"
    using assms by (simp add: algebra_simps)
  then have "py * uint width + px < 2 ^ 32"
    using assms(5) by (simp add: mult.commute)
  then show ?thesis
    using assms by (intro pixel_index_unat) auto
qed

lemma pixel_index_inj_on_screen:
  assumes "0 \<le> px" "px < uint width" "0 \<le> py" "py < uint height"
    and "0 \<le> qx" "qx < uint width" "0 \<le> qy" "qy < uint height"
    and "uint width * uint height \<le> 2 ^ 32"
    and "(px, py) \<noteq> (qx, qy)"
  shows "unat (pixel_index width px py) \<noteq> unat (pixel_index width qx qy)"
proof -
  have "py * uint width + px \<noteq> qy * uint width + qx"
  proof
    assume eq: "py * uint width + px = qy * uint width + qx"
    then have "(py * uint width + px) mod uint width = (qy * uint width + qx) mod uint width"
      by simp
    then have x: "px = qx" using assms by simp
    then have "py * uint width = qy * uint width" using eq by simp
    then have "py = qy" using assms by simp
    then show False using x assms by simp
  qed
  moreover have "0 \<le> py * uint width + px" "0 \<le> qy * uint width + qx"
    using assms by simp_all
  ultimately show ?thesis
    using pixel_index_on_screen[OF assms(1-4) assms(9)]
      pixel_index_on_screen[OF assms(5-8) assms(9)] by simp
qed

lemma rasterize_triangle_depth_at:
  assumes box: "box_on_screen width height (screen_triangle width height v0 v1 v2 model)"
    and inb: "in_box width height (screen_triangle width height v0 v1 v2 model) px0 py0"
    and size: "uint width * uint height \<le> 2 ^ 32"
  shows "pixel_at (rasterize_triangle_depth s width height v0 v1 v2 model)
           (unat (pixel_index width px0 py0))
         = depth_test (depth_fragment (screen_triangle width height v0 v1 v2 model) px0 py0)
             (pixel_at s (unat (pixel_index width px0 py0)))"
proof -
  let ?t = "screen_triangle width height v0 v1 v2 model"
  have fold: "rasterize_triangle_depth s width height v0 v1 v2 model =
      foldl (\<lambda>s py. foldl (depth_pixel width ?t py) s [depth_min_x ?t..depth_max_x width ?t]) s
        [depth_min_y ?t..depth_max_y height ?t]"
    unfolding rasterize_triangle_depth_def Let_def depth_row_def[abs_def] ..
  show ?thesis
    unfolding fold
  proof (rule depth_rows_at)
    fix px py
    assume "px \<in> set [depth_min_x ?t..depth_max_x width ?t]"
      "py \<in> set [depth_min_y ?t..depth_max_y height ?t]" "(px, py) \<noteq> (px0, py0)"
    then show "unat (pixel_index width px py) \<noteq> unat (pixel_index width px0 py0)"
      using box inb size
      by (intro pixel_index_inj_on_screen) (auto simp: box_on_screen_def in_box_def)
  qed (use inb in \<open>auto simp: in_box_def\<close>)
qed

lemma float_lt_asym: "float_lt a b \<Longrightarrow> \<not> float_lt b a"
  by (auto simp: float_lt_def)

lemma depth_test_passes:
  "float_lt z (snd old) \<Longrightarrow> depth_test (Some (z, pixel)) old = (pixel, z)"
  by (simp add: depth_test_def)

lemma depth_test_fails:
  "\<not> float_lt z (snd old) \<Longrightarrow> depth_test (Some (z, pixel)) old = old"
  by (simp add: depth_test_def)

text \<open>
  Claim C4.  Two triangles whose bounding boxes lie on the screen both cover a pixel, the
  first with interpolated depth \<open>zn\<close> and pixel \<open>cn\<close>, the second with the larger depth
  \<open>zf\<close>, and \<open>zn\<close> is less than the depth stored for the pixel at the start (as \<open>0.2\<close>
  is less than the cleared depth).  Then rasterizing the near triangle alone stores its
  pixel and depth exactly when \<open>zn\<close> is less than the stored depth, and rasterizing the two
  triangles far-then-near or near-then-far both leave the near pixel \<open>cn\<close> and the depth
  \<open>zn\<close>.
\<close>

theorem depth_test_order_independent:
  assumes size: "uint width * uint height \<le> 2 ^ 32"
    and box_n: "box_on_screen width height (screen_triangle width height n0 n1 n2 model_n)"
    and box_f: "box_on_screen width height (screen_triangle width height f0 f1 f2 model_f)"
    and in_n: "in_box width height (screen_triangle width height n0 n1 n2 model_n) px py"
    and in_f: "in_box width height (screen_triangle width height f0 f1 f2 model_f) px py"
    and frag_n: "depth_fragment (screen_triangle width height n0 n1 n2 model_n) px py
                   = Some (zn, cn)"
    and frag_f: "depth_fragment (screen_triangle width height f0 f1 f2 model_f) px py
                   = Some (zf, cf)"
    and nearer: "float_lt zn zf"
    and visible: "float_lt zn (snd s (unat (pixel_index width px py)))"
  shows "(\<forall>s'. pixel_at (rasterize_triangle_depth s' width height n0 n1 n2 model_n)
                 (unat (pixel_index width px py)) =
               (if float_lt zn (snd s' (unat (pixel_index width px py))) then (cn, zn)
                else pixel_at s' (unat (pixel_index width px py)))) \<and>
         pixel_at (rasterize_triangle_depth
                     (rasterize_triangle_depth s width height f0 f1 f2 model_f)
                     width height n0 n1 n2 model_n) (unat (pixel_index width px py)) = (cn, zn) \<and>
         pixel_at (rasterize_triangle_depth
                     (rasterize_triangle_depth s width height n0 n1 n2 model_n)
                     width height f0 f1 f2 model_f) (unat (pixel_index width px py)) = (cn, zn)"
proof -
  let ?i = "unat (pixel_index width px py)"
  let ?N = "\<lambda>s. rasterize_triangle_depth s width height n0 n1 n2 model_n"
  let ?F = "\<lambda>s. rasterize_triangle_depth s width height f0 f1 f2 model_f"
  have N: "pixel_at (?N s') ?i = depth_test (Some (zn, cn)) (pixel_at s' ?i)" for s'
    using rasterize_triangle_depth_at[OF box_n in_n size] frag_n by simp
  have F: "pixel_at (?F s') ?i = depth_test (Some (zf, cf)) (pixel_at s' ?i)" for s'
    using rasterize_triangle_depth_at[OF box_f in_f size] frag_f by simp
  have single: "pixel_at (?N s') ?i =
      (if float_lt zn (snd s' ?i) then (cn, zn) else pixel_at s' ?i)" for s'
  proof -
    have "depth_test (Some (zn, cn)) (pixel_at s' ?i) =
        (if float_lt zn (snd s' ?i) then (cn, zn) else pixel_at s' ?i)"
      by (simp add: depth_test_def pixel_at_def)
    then show ?thesis by (simp only: N)
  qed
  have s0: "float_lt zn (snd (pixel_at s ?i))"
    using visible by (simp add: pixel_at_def)
  have far_first: "pixel_at (?N (?F s)) ?i = (cn, zn)"
  proof (cases "float_lt zf (snd (pixel_at s ?i))")
    case True
    then have "pixel_at (?F s) ?i = (cf, zf)" by (simp add: F depth_test_passes)
    then show ?thesis using nearer by (simp add: N depth_test_passes)
  next
    case False
    then have "pixel_at (?F s) ?i = pixel_at s ?i" by (simp add: F depth_test_fails)
    then show ?thesis using s0 by (simp add: N depth_test_passes)
  qed
  have near_first: "pixel_at (?F (?N s)) ?i = (cn, zn)"
  proof -
    have "pixel_at (?N s) ?i = (cn, zn)" using s0 by (simp add: N depth_test_passes)
    then show ?thesis using float_lt_asym[OF nearer] by (simp add: F depth_test_fails)
  qed
  show ?thesis using single far_first near_first by blast
qed

lemma near_screen: "screen_triangle 800 600 near_v0 near_v1 near_v2 mat4f_identity = near_triangle"
  by code_simp

lemma far_screen: "screen_triangle 800 600 far_v0 far_v1 far_v2 mat4f_identity = far_triangle"
  by code_simp

lemma near_far_box:
  "depth_min_x near_triangle = 400" "depth_max_x 800 near_triangle = 550"
  "depth_min_y near_triangle = 150" "depth_max_y 600 near_triangle = 300"
  "depth_min_x far_triangle = 400" "depth_max_x 800 far_triangle = 550"
  "depth_min_y far_triangle = 150" "depth_max_y 600 far_triangle = 300"
  by code_simp+

lemma near_far_denom:
  "\<not> float_lt (fabsf (depth_denom near_triangle)) 0x358637BD"
  "\<not> float_lt (fabsf (depth_denom far_triangle)) 0x358637BD"
  by code_simp+

lemma near_far_weights:
  "depth_weights near_triangle 410 290 = (0x3F5DDDDE, 0x3D888889, 0x3D888887)"
  "depth_weights far_triangle 410 290 = (0x3F5DDDDE, 0x3D888889, 0x3D888887)"
  by code_simp+

lemma near_far_weights_pass:
  "float_le 0 0x3F5DDDDE" "float_le 0 0x3D888889" "float_le 0 0x3D888887"
  by code_simp+

lemma near_far_depth:
  "float_add (float_add (float_mul 0x3F5DDDDE (scr_z0 near_triangle))
                        (float_mul 0x3D888889 (scr_z1 near_triangle)))
             (float_mul 0x3D888887 (scr_z2 near_triangle)) = 0x3E4CCCCD"
  "float_add (float_add (float_mul 0x3F5DDDDE (scr_z0 far_triangle))
                        (float_mul 0x3D888889 (scr_z1 far_triangle)))
             (float_mul 0x3D888887 (scr_z2 far_triangle)) = 0x3F4CCCCD"
  by code_simp+

lemma near_far_color:
  "depth_color near_triangle 0x3F5DDDDE 0x3D888889 0x3D888887 = 0xFFFF0000"
  "depth_color far_triangle 0x3F5DDDDE 0x3D888889 0x3D888887 = 0xFF0000FF"
  by code_simp+

lemma near_fragment: "depth_fragment near_triangle 410 290 = Some (0x3E4CCCCD, 0xFFFF0000)"
  unfolding depth_fragment_def
  by (simp only: near_far_denom near_far_weights near_far_weights_pass near_far_depth
        near_far_color if_False if_True prod.case simp_thms)

lemma far_fragment: "depth_fragment far_triangle 410 290 = Some (0x3F4CCCCD, 0xFF0000FF)"
  unfolding depth_fragment_def
  by (simp only: near_far_denom near_far_weights near_far_weights_pass near_far_depth
        near_far_color if_False if_True prod.case simp_thms)

text \<open>
  The statement of C4 on the red triangle at depth \<open>0.2\<close> and the blue one at depth
  \<open>0.8\<close>, at the pixel \<open>(410, 290)\<close> of the cleared buffers: red in both orders.
\<close>

theorem depth_test_order_independent_witness:
  "pixel_at (rasterize_triangle_depth
               (rasterize_triangle_depth cleared_state 800 600 far_v0 far_v1 far_v2 mat4f_identity)
               800 600 near_v0 near_v1 near_v2 mat4f_identity) (290 * 800 + 410)
     = (0xFFFF0000, 0x3E4CCCCD) \<and>
   pixel_at (rasterize_triangle_depth
               (rasterize_triangle_depth cleared_state 800 600 near_v0 near_v1 near_v2 mat4f_identity)
               800 600 far_v0 far_v1 far_v2 mat4f_identity) (290 * 800 + 410)
     = (0xFFFF0000, 0x3E4CCCCD)"
proof -
  have size: "uint (800 :: u32) * uint (600 :: u32) \<le> 2 ^ 32" by simp
  have box_n: "box_on_screen 800 600 (screen_triangle 800 600 near_v0 near_v1 near_v2 mat4f_identity)"
    by (simp add: near_screen box_on_screen_def near_far_box)
  have box_f: "box_on_screen 800 600 (screen_triangle 800 600 far_v0 far_v1 far_v2 mat4f_identity)"
    by (simp add: far_screen box_on_screen_def near_far_box)
  have in_n: "in_box 800 600 (screen_triangle 800 600 near_v0 near_v1 near_v2 mat4f_identity) 410 290"
    by (simp add: near_screen in_box_def near_far_box)
  have in_f: "in_box 800 600 (screen_triangle 800 600 far_v0 far_v1 far_v2 mat4f_identity) 410 290"
    by (simp add: far_screen in_box_def near_far_box)
  have frag_n: "depth_fragment (screen_triangle 800 600 near_v0 near_v1 near_v2 mat4f_identity) 410 290
      = Some (0x3E4CCCCD, 0xFFFF0000)"
    by (simp only: near_screen near_fragment)
  have frag_f: "depth_fragment (screen_triangle 800 600 far_v0 far_v1 far_v2 mat4f_identity) 410 290
      = Some (0x3F4CCCCD, 0xFF0000FF)"
    by (simp only: far_screen far_fragment)
  have nearer: "float_lt 0x3E4CCCCD 0x3F4CCCCD" by code_simp
  have idx: "unat (pixel_index 800 410 290) = 290 * 800 + 410"
    using pixel_index_800_nat[of 410 290] by simp
  have "float_lt 0x3E4CCCCD 0x447A0000" by code_simp
  then have visible: "float_lt 0x3E4CCCCD (snd cleared_state (unat (pixel_index 800 410 290)))"
    by (simp add: cleared_state_def)
  show ?thesis
    using depth_test_order_independent[OF size box_n box_f in_n in_f frag_n frag_f nearer visible]
    unfolding idx by blast
qed

text \<open>
  The containment test \<^verbatim>\<open>f32_ge(u, F32_ZERO)\<close> is \<^verbatim>\<open>f32_gt\<close> or equality of the words,
  so that a weight of \<open>-0.0\<close> (\<open>0x80000000\<close>) fails it, although \<open>-0.0 >= 0\<close> holds for
  floats.  For the triangle \<open>(1, 1)\<close>, \<open>(0, 2)\<close>, \<open>(0, 0)\<close> the pixel \<open>(1, 1)\<close> of its first
  corner has the weights \<open>(-0.0, 0.0, 1.0)\<close> and is not covered.
\<close>

lemma negative_zero_weight_not_covered:
  "barycentric_weights (f32_from_i32 1) (f32_from_i32 1)
     (v3x (position (screen_vertex 1 1 RGB_RED))) (v3y (position (screen_vertex 1 1 RGB_RED)))
     (v3x (position (screen_vertex 0 2 RGB_RED))) (v3y (position (screen_vertex 0 2 RGB_RED)))
     (v3x (position (screen_vertex 0 0 RGB_RED))) (v3y (position (screen_vertex 0 0 RGB_RED)))
     = (0x80000000, 0, 0x3F800000)"
  "float_le 0 0x80000000"
  "triangle_pixel (screen_vertex 1 1 RGB_RED) (screen_vertex 0 2 RGB_RED)
     (screen_vertex 0 0 RGB_RED) 1 1 = None"
proof -
  show w: "barycentric_weights (f32_from_i32 1) (f32_from_i32 1)
     (v3x (position (screen_vertex 1 1 RGB_RED))) (v3y (position (screen_vertex 1 1 RGB_RED)))
     (v3x (position (screen_vertex 0 2 RGB_RED))) (v3y (position (screen_vertex 0 2 RGB_RED)))
     (v3x (position (screen_vertex 0 0 RGB_RED))) (v3y (position (screen_vertex 0 0 RGB_RED)))
     = (0x80000000, 0, 0x3F800000)"
    by code_simp
  show "float_le 0 0x80000000" by code_simp
  have "\<not> f32_ge 0x80000000 F32_ZERO" by code_simp
  then show "triangle_pixel (screen_vertex 1 1 RGB_RED) (screen_vertex 0 2 RGB_RED)
     (screen_vertex 0 0 RGB_RED) 1 1 = None"
    by (simp add: triangle_pixel_def point_in_triangle_barycentric_def w)
qed

end
